theory Spec2Isabelle
  imports Complex_Main "HOL-Library.Sublist" "HOL-Library.AList"
begin

section \<open>JavaScript values\<close>

text \<open>
  DocVerify is a TypeScript program. Its strings are modelled as \<^typ>\<open>string\<close>, one
  \<^typ>\<open>char\<close> per code unit, so the model covers texts whose code units fit in eight bits;
  every pattern the program searches for is ASCII. Numbers that carry a confidence score
  are \<^typ>\<open>real\<close>: the arithmetic is the exact one, without the rounding of IEEE doubles.
  A thrown \<open>Error\<close> is a value carrying its message, an awaited promise is settled
  (resolved or rejected) or stays pending for ever.
\<close>

datatype error = Error string

datatype 'a promise = Resolved 'a | Rejected error | Pending

datatype json =
    JNull
  | JBool bool
  | JNum real
  | JStr string
  | JArr "json list"
  | JObj "(string \<times> json) list"

text \<open>Property read \<open>v[k]\<close> on a parsed value; \<open>None\<close> is \<open>undefined\<close>.\<close>

fun obj_get :: "string \<Rightarrow> json \<Rightarrow> json option" where
  "obj_get k (JObj kvs) = map_of kvs k"
| "obj_get k v = None"

text \<open>JavaScript truthiness of a property that may be \<open>undefined\<close>.\<close>

fun truthy :: "json option \<Rightarrow> bool" where
  "truthy None = False"
| "truthy (Some JNull) = False"
| "truthy (Some (JBool b)) = b"
| "truthy (Some (JNum n)) = (n \<noteq> 0)"
| "truthy (Some (JStr s)) = (s \<noteq> [])"
| "truthy (Some (JArr xs)) = True"
| "truthy (Some (JObj kvs)) = True"

text \<open>
  The own properties an object spread \<open>{...v}\<close> copies. The program only spreads values
  parsed from a text that starts with a brace, which are objects.
\<close>

fun spread :: "json \<Rightarrow> (string \<times> json) list" where
  "spread (JObj kvs) = kvs"
| "spread v = []"

text \<open>
  \<open>{...v, moderationStatus: v.isLikelyGenuine ? 'safe' : 'flagged'}\<close>, which both the
  route and the uploader apply to a verification.
\<close>

definition withModerationStatus :: "json \<Rightarrow> json" where
  "withModerationStatus v =
     JObj (AList.update ''moderationStatus''
             (JStr (if truthy (obj_get ''isLikelyGenuine'' v) then ''safe'' else ''flagged''))
             (spread v))"

subsection \<open>Strings\<close>

definition isSpace :: "char \<Rightarrow> bool" where
  "isSpace c = (c \<in> set [CHR 0x09, CHR 0x0A, CHR 0x0B, CHR 0x0C, CHR 0x0D, CHR 0x20, CHR 0xA0])"

definition isLineTerminator :: "char \<Rightarrow> bool" where
  "isLineTerminator c = (c \<in> set [CHR 0x0A, CHR 0x0D])"

definition isWordChar :: "char \<Rightarrow> bool" where
  "isWordChar c =
     (c \<in> set ''abcdefghijklmnopqrstuvwxyzABCDEFGHIJKLMNOPQRSTUVWXYZ0123456789_'')"

definition isLowerHex :: "char \<Rightarrow> bool" where
  "isLowerHex c = (c \<in> set ''0123456789abcdef'')"

definition toLowerChar :: "char \<Rightarrow> char" where
  "toLowerChar c =
     (case map_of (zip ''ABCDEFGHIJKLMNOPQRSTUVWXYZ'' ''abcdefghijklmnopqrstuvwxyz'') c of
        Some d \<Rightarrow> d
      | None \<Rightarrow> c)"

definition toLowerCase :: "string \<Rightarrow> string" where
  "toLowerCase s = map toLowerChar s"

definition startsWith :: "string \<Rightarrow> string \<Rightarrow> bool" where
  "startsWith s p = prefix p s"

text \<open>\<open>s.includes(t)\<close>: \<open>t\<close> occurs in \<open>s\<close> as a contiguous run.\<close>

fun str_includes :: "string \<Rightarrow> string \<Rightarrow> bool" where
  "str_includes [] t = (t = [])"
| "str_includes (c # cs) t = (prefix t (c # cs) \<or> str_includes cs t)"

text \<open>\<open>xs.join(sep)\<close>.\<close>

fun join :: "string \<Rightarrow> string list \<Rightarrow> string" where
  "join sep [] = []"
| "join sep [x] = x"
| "join sep (x # y # ys) = x @ sep @ join sep (y # ys)"

text \<open>\<open>s.replace(/\s+/g, ' ')\<close>: every maximal run of white space becomes one space.\<close>

fun collapseSpaces :: "bool \<Rightarrow> string \<Rightarrow> string" where
  "collapseSpaces inRun [] = []"
| "collapseSpaces inRun (c # cs) =
     (if isSpace c then (if inRun then collapseSpaces True cs else CHR 0x20 # collapseSpaces True cs)
      else c # collapseSpaces False cs)"

definition trim :: "string \<Rightarrow> string" where
  "trim s = rev (dropWhile isSpace (rev (dropWhile isSpace s)))"

text \<open>Decimal digits of a natural number, and \<open>Math.round\<close>.\<close>

definition digit :: "nat \<Rightarrow> char" where
  "digit d = ''0123456789'' ! (d mod 10)"

fun string_of_nat :: "nat \<Rightarrow> string" where
  "string_of_nat n = (if n < 10 then [digit n] else string_of_nat (n div 10) @ [digit n])"

definition string_of_int :: "int \<Rightarrow> string" where
  "string_of_int i = (if i < 0 then CHR ''-'' # string_of_nat (nat (- i)) else string_of_nat (nat i))"

definition Math_round :: "real \<Rightarrow> int" where
  "Math_round x = \<lfloor>x + 1 / 2\<rfloor>"

text \<open>
  \<open>(size / 1024).toFixed(2) + ' KB'\<close> for a byte count: \<open>size / 1024\<close> is exact in a
  double, and \<open>toFixed\<close> takes the nearest multiple of a hundredth, the larger one on a tie.
\<close>

definition formatKB :: "nat \<Rightarrow> string" where
  "formatKB bytes =
     (let n = (bytes * 200 + 1024) div 2048
      in string_of_nat (n div 100) @ ''.'' @ [digit (n div 10), digit n] @ '' KB'')"

section \<open>The document uploader (components/DocumentUploader.tsx)\<close>

text \<open>
  The calls into the in-browser and hosted libraries, in the order a run makes them.
\<close>

datatype event = RunOCR | ClassifyImage | BuildPrompt | CallLLM | MatchReply

text \<open>
  An uploaded \<open>File\<close>. Its \<open>size\<close> is the number of its bytes. \<open>lastModifiedText\<close> stands
  for \<open>new Date(file.lastModified).toLocaleString()\<close>.
\<close>

record js_file =
  file_name :: string
  file_type :: string
  file_bytes :: string
  lastModifiedText :: string

definition file_size :: "js_file \<Rightarrow> nat" where
  "file_size f = length (file_bytes f)"

text \<open>
  What the browser and its libraries answer for one file: whether an \<open>img\<close> element loads
  it, whether the \<open>FileReader\<close> can read it as text, the outcome of \<open>Tesseract.recognize\<close>,
  whether the MobileNet model was loaded, the outcome of \<open>model.classify\<close> with the image's
  natural width and height, \<open>decodeURIComponent\<close>, and whether \<open>fetch\<close> reaches the server.
\<close>

record tesseract_data =
  data_text :: "string option"
  data_confidence :: real

record browser =
  imageLoads :: bool
  readable :: bool
  recognize :: "error + tesseract_data"
  modelLoaded :: bool
  classify :: "error + real list"
  naturalWidth :: real
  naturalHeight :: real
  decodeURIComponent :: "string \<Rightarrow> error + string"
  fetchFails :: bool

record ocr_result =
  ocr_text :: string
  ocr_confidence :: real

subsection \<open>extractTextFromImage\<close>

definition cleanText :: "string \<Rightarrow> string" where
  "cleanText s = trim (collapseSpaces False s)"

text \<open>The \<open>try\<close> block of \<open>extractTextFromImage\<close>: \<open>Inl\<close> is an exception thrown in it.\<close>

definition extractTextFromImage_try :: "browser \<Rightarrow> js_file \<Rightarrow> event list \<times> (error + ocr_result)" where
  "extractTextFromImage_try b f =
     (if file_type f = ''application/pdf'' then
        ([], Inr \<lparr>ocr_text = ''PDF text extraction requires server-side processing.'',
                  ocr_confidence = 0.5\<rparr>)
      else if \<not> imageLoads b then ([], Inl (Error ''Failed to load image''))
      else
        (case recognize b of
           Inl e \<Rightarrow> ([RunOCR], Inl e)
         | Inr d \<Rightarrow>
             (let extractedText = cleanText (case data_text d of None \<Rightarrow> [] | Some t \<Rightarrow> t);
                  confidence = data_confidence d / 100
              in ([RunOCR],
                  Inr (if length extractedText < 5 \<and> confidence < 0.3 then
                         \<lparr>ocr_text = ''No meaningful text could be extracted from this document.'',
                          ocr_confidence = 0.1\<rparr>
                       else \<lparr>ocr_text = extractedText, ocr_confidence = confidence\<rparr>)))))"

text \<open>The function with its \<open>catch\<close>: the fallback result instead of the exception.\<close>

definition extractTextFromImage :: "browser \<Rightarrow> js_file \<Rightarrow> event list \<times> ocr_result promise" where
  "extractTextFromImage b f =
     (case extractTextFromImage_try b f of
        (calls, Inr r) \<Rightarrow> (calls, Resolved r)
      | (calls, Inl e) \<Rightarrow>
          (calls,
           Resolved \<lparr>ocr_text = ''Text extraction failed. The document may be encrypted, damaged, or in an unsupported format.'',
                     ocr_confidence = 0\<rparr>))"

subsection \<open>Suspicious text patterns\<close>

text \<open>
  \<open>/fake|copy|specimen|sample|test/i\<close> and the file-name pattern
  \<open>/temp|untitled|unnamed|copy|fake|test|sample/i\<close>: one of the words occurs, in any case.
\<close>

definition matchesSuspiciousTerms :: "string \<Rightarrow> bool" where
  "matchesSuspiciousTerms t =
     list_ex (str_includes (toLowerCase t)) [''fake'', ''copy'', ''specimen'', ''sample'', ''test'']"

definition hasSuspiciousName :: "string \<Rightarrow> bool" where
  "hasSuspiciousName n =
     list_ex (str_includes (toLowerCase n))
       [''temp'', ''untitled'', ''unnamed'', ''copy'', ''fake'', ''test'', ''sample'']"

text \<open>
  \<open>/\b(not|non)[\s-]?(valid|official)\b/i\<close>. \<open>wordEnd\<close> is the closing \<open>\b\<close>, which
  follows a word character; \<open>disclaimerAt\<close> matches the pattern after its opening
  \<open>\b\<close> at the head of a lower-cased text; \<open>disclaimerFrom\<close> tries every position, knowing
  whether the character before it is a word character.
\<close>

definition wordEnd :: "string \<Rightarrow> bool" where
  "wordEnd s = (case s of [] \<Rightarrow> True | c # cs \<Rightarrow> \<not> isWordChar c)"

definition validOrOfficial :: "string \<Rightarrow> bool" where
  "validOrOfficial s =
     list_ex (\<lambda>w. prefix w s \<and> wordEnd (drop (length w) s)) [''valid'', ''official'']"

definition disclaimerAt :: "string \<Rightarrow> bool" where
  "disclaimerAt s =
     list_ex
       (\<lambda>neg. prefix neg s \<and>
          (let r = drop (length neg) s
           in validOrOfficial r \<or>
              (case r of
                 [] \<Rightarrow> False
               | c # r' \<Rightarrow> (isSpace c \<or> c = CHR ''-'') \<and> validOrOfficial r')))
       [''not'', ''non'']"

fun disclaimerFrom :: "bool \<Rightarrow> string \<Rightarrow> bool" where
  "disclaimerFrom afterWord [] = False"
| "disclaimerFrom afterWord (c # cs) =
     ((\<not> afterWord \<and> disclaimerAt (c # cs)) \<or> disclaimerFrom (isWordChar c) cs)"

definition matchesDisclaimer :: "string \<Rightarrow> bool" where
  "matchesDisclaimer t = disclaimerFrom False (toLowerCase t)"

definition termsDescription :: string where
  "termsDescription = ''Contains terms like 'fake', 'copy', 'specimen'' @ [CHR 0x27]"

definition disclaimerDescription :: string where
  "disclaimerDescription = ''Contains disclaimers like 'not valid'' @ [CHR 0x27]"

definition suspiciousTextPatterns :: "((string \<Rightarrow> bool) \<times> string) list" where
  "suspiciousTextPatterns =
     [(matchesSuspiciousTerms, termsDescription), (matchesDisclaimer, disclaimerDescription)]"

text \<open>
  The loop over the patterns on the image path: the descriptions of the patterns that
  match the text, in the order of the patterns.
\<close>

fun textAnomalies :: "((string \<Rightarrow> bool) \<times> string) list \<Rightarrow> string \<Rightarrow> string list" where
  "textAnomalies [] t = []"
| "textAnomalies ((pattern, description) # ps) t =
     (if pattern t then description # textAnomalies ps t else textAnomalies ps t)"

text \<open>
  The loop on the PDF path, over the anomalies and the confidence score collected so far.
\<close>

fun penalizeTextPatterns ::
  "((string \<Rightarrow> bool) \<times> string) list \<Rightarrow> string \<Rightarrow> string list \<times> real \<Rightarrow> string list \<times> real" where
  "penalizeTextPatterns [] t acc = acc"
| "penalizeTextPatterns ((pattern, description) # ps) t (anomalies, confidenceScore) =
     (if pattern t then penalizeTextPatterns ps t (anomalies @ [description], confidenceScore - 0.2)
      else penalizeTextPatterns ps t (anomalies, confidenceScore))"

subsection \<open>extractPdfMetadata\<close>

type_synonym metadata = "(string \<times> string) list"

text \<open>
  \<open>readFileHeader\<close> turns the first bytes into a string and cannot reject;
  \<open>readFileAsText\<close> rejects when the reader fails.
\<close>

definition readFileHeader :: "js_file \<Rightarrow> nat \<Rightarrow> string" where
  "readFileHeader f bytes = take (min bytes (length (file_bytes f))) (file_bytes f)"

definition readFileAsText :: "browser \<Rightarrow> js_file \<Rightarrow> error + string" where
  "readFileAsText b f =
     (if readable b then Inr (file_bytes f) else Inl (Error ''Failed to read file''))"

text \<open>
  \<open>content.match(/\/Key\s*\((.*?)\)/)\<close>: the group of the first match. At one position
  the key is followed by white space, an opening parenthesis and the shortest run of
  characters other than line terminators that a closing parenthesis ends.
\<close>

definition matchFieldAt :: "string \<Rightarrow> string \<Rightarrow> string option" where
  "matchFieldAt key s =
     (if prefix key s then
        (case dropWhile isSpace (drop (length key) s) of
           [] \<Rightarrow> None
         | c # t \<Rightarrow>
             (if c = CHR ''('' then
                (let g = takeWhile (\<lambda>x. x \<noteq> CHR '')'' \<and> \<not> isLineTerminator x) t
                 in (case drop (length g) t of
                       [] \<Rightarrow> None
                     | d # u \<Rightarrow> if d = CHR '')'' then Some g else None))
              else None))
      else None)"

fun matchField :: "string \<Rightarrow> string \<Rightarrow> string option" where
  "matchField key [] = matchFieldAt key []"
| "matchField key (c # cs) =
     (case matchFieldAt key (c # cs) of
        Some g \<Rightarrow> Some g
      | None \<Rightarrow> matchField key cs)"

text \<open>\<open>s.replace(/\\([0-9a-f]{2})/g, '%$1')\<close>: a backslash before two hex digits becomes a percent sign.\<close>

fun replaceHexEscapes :: "string \<Rightarrow> string" where
  "replaceHexEscapes (c # h1 # h2 # rest) =
     (if c = CHR 0x5C \<and> isLowerHex h1 \<and> isLowerHex h2 then
        CHR ''%'' # h1 # h2 # replaceHexEscapes rest
      else c # replaceHexEscapes (h1 # h2 # rest))"
| "replaceHexEscapes s = s"

text \<open>
  The four blocks that extract Title, Author, Creator and Producer, one after the other.
  A field whose match has a non-empty group is decoded and stored; a \<open>URIError\<close> of
  \<open>decodeURIComponent\<close> leaves the block with the fields stored so far.
\<close>

definition metadataFields :: "(string \<times> string) list" where
  "metadataFields =
     [(''Title'', ''/Title''), (''Author'', ''/Author''),
      (''Creator'', ''/Creator''), (''Producer'', ''/Producer'')]"

fun extractFields :: "browser \<Rightarrow> string \<Rightarrow> (string \<times> string) list \<Rightarrow> metadata \<Rightarrow> metadata \<times> error option" where
  "extractFields b pdfContent [] md = (md, None)"
| "extractFields b pdfContent ((field, key) # rest) md =
     (case matchField key pdfContent of
        None \<Rightarrow> extractFields b pdfContent rest md
      | Some g \<Rightarrow>
          (if g = [] then extractFields b pdfContent rest md
           else
             (case decodeURIComponent b (replaceHexEscapes g) of
                Inl e \<Rightarrow> (md, Some e)
              | Inr v \<Rightarrow> extractFields b pdfContent rest (AList.update field v md))))"

definition suspiciousCreators :: "string list" where
  "suspiciousCreators = [''AI'', ''Generated'', ''GPT'', ''DALL-E'', ''Midjourney'', ''Stable Diffusion'']"

definition suspiciousProducers :: "string list" where
  "suspiciousProducers = [''AI'', ''Generated'', ''GPT'', ''DALL-E'', ''Midjourney'', ''Stable Diffusion'']"

text \<open>\<open>metadata[field] && terms.some(term => metadata[field].includes(term))\<close>.\<close>

definition suggestsAI :: "metadata \<Rightarrow> string \<Rightarrow> string list \<Rightarrow> bool" where
  "suggestsAI md field terms =
     (case map_of md field of
        None \<Rightarrow> False
      | Some v \<Rightarrow> v \<noteq> [] \<and> list_ex (str_includes v) terms)"

definition missingMetadataCount :: "metadata \<Rightarrow> nat" where
  "missingMetadataCount md =
     length (filter (\<lambda>field. case map_of md field of None \<Rightarrow> True | Some v \<Rightarrow> v = [])
               [''Title'', ''Author'', ''Creator'', ''Producer''])"

text \<open>
  The checks on the extracted metadata (the code after the four extraction blocks): the
  anomalies and the confidence score after them.
\<close>

definition metadataPatternCheck :: "metadata \<Rightarrow> string list \<times> real \<Rightarrow> string list \<times> real" where
  "metadataPatternCheck md acc =
     (let (a1, s1) = acc;
          (a2, s2) = (if suggestsAI md ''Creator'' suspiciousCreators
                      then (a1 @ [''Document creator suggests AI generation''], s1 - 0.3)
                      else (a1, s1));
          (a3, s3) = (if suggestsAI md ''Producer'' suspiciousProducers
                      then (a2 @ [''Document producer suggests AI generation''], s2 - 0.3)
                      else (a2, s2))
      in if 3 \<le> missingMetadataCount md
         then (a3 @ [''Document is missing most standard metadata fields''], s3 - 0.2)
         else (a3, s3))"

text \<open>
  The inner \<open>try\<close> of \<open>extractPdfMetadata\<close> with its \<open>catch\<close>. A file without the PDF
  header is not read. When reading or decoding throws, the checks are not reached and the
  metadata gets a \<open>Status\<close> entry.
\<close>

definition pdfContentAnalysis ::
  "browser \<Rightarrow> js_file \<Rightarrow> bool \<Rightarrow> metadata \<times> string list \<times> real \<Rightarrow> metadata \<times> string list \<times> real" where
  "pdfContentAnalysis b f hasPdfHeader st =
     (let (md, anomalies, confidenceScore) = st
      in if \<not> hasPdfHeader then st
         else
           (case readFileAsText b f of
              Inl e \<Rightarrow> (AList.update ''Status'' ''Limited metadata extraction'' md, anomalies, confidenceScore)
            | Inr pdfContent \<Rightarrow>
                (case extractFields b pdfContent metadataFields md of
                   (md', Some e) \<Rightarrow>
                     (AList.update ''Status'' ''Limited metadata extraction'' md', anomalies, confidenceScore)
                 | (md', None) \<Rightarrow>
                     (let (anomalies', confidenceScore') = metadataPatternCheck md' (anomalies, confidenceScore)
                      in (md', anomalies', confidenceScore')))))"

text \<open>
  The state of \<open>extractPdfMetadata\<close> before its \<open>return\<close>: the metadata, the anomalies
  and the confidence score that is not yet clamped. No call of the outer \<open>try\<close> block can
  throw (\<open>readFileHeader\<close> has no rejecting path), so its \<open>catch\<close> is not a branch here.
\<close>

definition pdfChecks :: "browser \<Rightarrow> js_file \<Rightarrow> metadata \<times> string list \<times> real" where
  "pdfChecks b f =
     (let isSuspiciouslySmall = file_size f < 10000;
          hasPdfHeader = (readFileHeader f 5 = ''%PDF-'');
          hasCorrectType = (file_type f = ''application/pdf'');
          suspiciousName = hasSuspiciousName (toLowerCase (file_name f));
          anomalies =
            (if isSuspiciouslySmall then [''Unusually small file size for a PDF''] else []) @
            (if \<not> hasPdfHeader then [''File does not have a valid PDF header''] else []) @
            (if \<not> hasCorrectType then [''File does not have the correct PDF MIME type''] else []) @
            (if suspiciousName then [''Document has a potentially suspicious filename''] else []);
          confidenceScore =
            0.95 - (if isSuspiciouslySmall then 0.2 else 0) - (if \<not> hasPdfHeader then 0.5 else 0)
                 - (if \<not> hasCorrectType then 0.3 else 0) - (if suspiciousName then 0.2 else 0);
          md = [(''File Name'', file_name f), (''File Size'', formatKB (file_size f)),
                (''File Type'', file_type f),
                (''Valid PDF Header'', if hasPdfHeader then ''Yes'' else ''No''),
                (''Last Modified'', lastModifiedText f)]
      in pdfContentAnalysis b f hasPdfHeader (md, anomalies, confidenceScore))"

definition clampScore :: "real \<Rightarrow> real" where
  "clampScore s = max 0.1 (min 1 s)"

record pdf_analysis =
  pdf_metadata :: metadata
  pdf_anomalies :: "string list"
  pdf_confidenceScore :: real

definition extractPdfMetadata :: "browser \<Rightarrow> js_file \<Rightarrow> pdf_analysis" where
  "extractPdfMetadata b f =
     (let (md, anomalies, confidenceScore) = pdfChecks b f
      in \<lparr>pdf_metadata = md, pdf_anomalies = anomalies,
          pdf_confidenceScore = clampScore confidenceScore\<rparr>)"

subsection \<open>handleFileUpload: the verification of one file\<close>

text \<open>
  \<open>handleFileUpload\<close> runs the same body for each uploaded file; the model is that body.
  \<open>analyze\<close> stands for the awaited call \<open>analyzeWithGemini(file, metadata)\<close>: the library
  calls it makes and how its promise settles. The result is the update of the file's entry
  in the component state, \<open>None\<close> when the body never gets that far.
\<close>

record gemini_result =
  isGenuine :: "json option"
  details :: json

record local_details =
  isLikelyGenuine :: bool
  isLikelyAiGenerated :: bool
  detectedAnomalies :: "string list"
  confidenceScore :: real
  analysisExplanation :: string

datatype verification =
    GeminiDetails json metadata string real
  | DocumentDetails local_details metadata string real
  | PlainDetails local_details

record file_update =
  moderationStatus :: string
  verificationDetails :: verification

text \<open>The update of the \<open>catch\<close> around the body.\<close>

definition analysisFailed :: "error \<Rightarrow> file_update" where
  "analysisFailed e =
     (case e of Error message \<Rightarrow>
        \<lparr>moderationStatus = ''flagged'',
         verificationDetails =
           PlainDetails
             \<lparr>isLikelyGenuine = False, isLikelyAiGenerated = False,
              detectedAnomalies = [''Analysis failed''], confidenceScore = 0,
              analysisExplanation = ''Error analyzing document: '' @ message\<rparr>\<rparr>)"

text \<open>The update from a result of \<open>analyzeWithGemini\<close>, on the image and on the PDF path.\<close>

definition geminiUpdate :: "gemini_result \<Rightarrow> metadata \<Rightarrow> string \<Rightarrow> real \<Rightarrow> file_update" where
  "geminiUpdate g md extractedText textConfidence =
     \<lparr>moderationStatus =
        (if truthy (obj_get ''isLikelyAiGenerated'' (details g)) then ''flagged'' else ''safe''),
      verificationDetails = GeminiDetails (details g) md extractedText textConfidence\<rparr>"

definition ocrMetadata :: "string \<Rightarrow> real \<Rightarrow> metadata \<Rightarrow> metadata" where
  "ocrMetadata extractedText textConfidence md =
     AList.update ''OCR Confidence'' (string_of_int (Math_round (textConfidence * 100)) @ ''%'')
       (AList.update ''OCR Text Length'' (string_of_nat (length extractedText) @ '' characters'') md)"

text \<open>The metadata of an image, with the descriptions of the patterns its text matches.\<close>

definition imageMetadata :: "js_file \<Rightarrow> ocr_result \<Rightarrow> metadata" where
  "imageMetadata f ocrResult =
     (let md0 = ocrMetadata (ocr_text ocrResult) (ocr_confidence ocrResult)
                  [(''File Name'', file_name f), (''File Size'', formatKB (file_size f)),
                   (''File Type'', file_type f)];
          found = textAnomalies suspiciousTextPatterns (ocr_text ocrResult)
      in if found \<noteq> [] then AList.update ''Text Anomalies'' (join '', '' found) md0 else md0)"

definition verifyImage ::
  "(metadata \<Rightarrow> event list \<times> gemini_result promise) \<Rightarrow> browser \<Rightarrow> js_file \<Rightarrow> event list \<times> file_update option" where
  "verifyImage analyze b f =
     (case extractTextFromImage b f of
        (calls, Pending) \<Rightarrow> (calls, None)
      | (calls, Rejected e) \<Rightarrow> (calls, Some (analysisFailed e))
      | (calls, Resolved ocrResult) \<Rightarrow>
          (let md = imageMetadata f ocrResult
           in (case analyze md of
                 (calls', Pending) \<Rightarrow> (calls @ calls', None)
               | (calls', Rejected e) \<Rightarrow> (calls @ calls', Some (analysisFailed e))
               | (calls', Resolved g) \<Rightarrow>
                   (calls @ calls',
                    Some (geminiUpdate g md (ocr_text ocrResult) (ocr_confidence ocrResult))))))"

text \<open>
  The additions to the PDF analysis when a text was extracted: two metadata entries and
  the loop over the suspicious patterns.
\<close>

definition pdfTextChecks ::
  "string \<Rightarrow> real \<Rightarrow> metadata \<times> string list \<times> real \<Rightarrow> metadata \<times> string list \<times> real" where
  "pdfTextChecks extractedText textConfidence st =
     (let (md, anomalies, score) = st
      in if extractedText \<noteq> [] then
           (let (anomalies', score') =
                  penalizeTextPatterns suspiciousTextPatterns extractedText (anomalies, score)
            in (ocrMetadata extractedText textConfidence md, anomalies', score'))
         else st)"

text \<open>
  The end of the document branch: the score is clamped, and the file is flagged when an
  anomaly names a missing PDF header, a mismatched extension, or the words fake or
  specimen.
\<close>

definition criticalAnomaly :: "string \<Rightarrow> bool" where
  "criticalAnomaly anomaly =
     (str_includes anomaly ''does not have a valid PDF header'' \<or>
      str_includes anomaly ''File extension doesn't match'' \<or>
      str_includes anomaly ''fake'' \<or>
      str_includes anomaly ''specimen'')"

definition documentVerification ::
  "string list \<Rightarrow> real \<Rightarrow> metadata \<Rightarrow> string \<Rightarrow> real \<Rightarrow> file_update" where
  "documentVerification anomalies score md extractedText textConfidence =
     (let clamped = clampScore score;
          aiGenerated = list_ex criticalAnomaly anomalies;
          genuine = (\<not> aiGenerated)
      in \<lparr>moderationStatus = (if aiGenerated then ''flagged'' else ''safe''),
          verificationDetails =
            DocumentDetails
              \<lparr>isLikelyGenuine = genuine, isLikelyAiGenerated = aiGenerated,
               detectedAnomalies = anomalies, confidenceScore = clamped,
               analysisExplanation =
                 (if anomalies \<noteq> [] then
                    ''Document verification found '' @ string_of_nat (length anomalies) @
                    '' potential issue'' @ (if length anomalies = 1 then [] else ''s'') @ '', but '' @
                    (if genuine then ''these are not critical to authenticity''
                     else ''some critical issues were detected'') @ ''.''
                  else ''Document appears to be genuine based on file characteristics.'')\<rparr>
              md extractedText textConfidence\<rparr>)"

text \<open>
  The PDF branch. \<open>extractPdfMetadata\<close> and the code between it and the call of
  \<open>analyzeWithGemini\<close> cannot throw, so the \<open>catch\<close> that sets the score to 0.7 is not a
  branch here. When \<open>analyzeWithGemini\<close> resolves, its result is the update; when it
  rejects, the local verification is.
\<close>

definition verifyPdf ::
  "(metadata \<Rightarrow> event list \<times> gemini_result promise) \<Rightarrow> browser \<Rightarrow> js_file \<Rightarrow> event list \<times> file_update option" where
  "verifyPdf analyze b f =
     (case extractTextFromImage b f of
        (calls, Pending) \<Rightarrow> (calls, None)
      | (calls, settled) \<Rightarrow>
          (let (extractedText, textConfidence) =
                 (case settled of
                    Resolved r \<Rightarrow> (ocr_text r, ocr_confidence r)
                  | _ \<Rightarrow> (''Text extraction from PDF requires server-side processing.'', 0.5));
               pdfAnalysis = extractPdfMetadata b f;
               (md, anomalies, score) =
                 pdfTextChecks extractedText textConfidence
                   (pdf_metadata pdfAnalysis, pdf_anomalies pdfAnalysis, pdf_confidenceScore pdfAnalysis)
           in (case analyze md of
                 (calls', Pending) \<Rightarrow> (calls @ calls', None)
               | (calls', Resolved g) \<Rightarrow>
                   (calls @ calls', Some (geminiUpdate g md extractedText textConfidence))
               | (calls', Rejected e) \<Rightarrow>
                   (calls @ calls',
                    Some (documentVerification anomalies score md extractedText textConfidence)))))"

text \<open>
  The branch of the word-processor documents. The expected type is looked up in an object
  literal by the lower-cased extension, so the extensions \<open>constructor\<close> and \<open>__proto__\<close>
  find an inherited property, which differs from every type.
\<close>

definition declaredExtension :: "string \<Rightarrow> string" where
  "declaredExtension n = toLowerCase (rev (takeWhile (\<lambda>c. c \<noteq> CHR ''.'') (rev n)))"

definition hasTypeMismatch :: "js_file \<Rightarrow> bool" where
  "hasTypeMismatch f =
     (let ext = declaredExtension (file_name f)
      in if ext = ''doc'' then file_type f \<noteq> ''application/msword''
         else if ext = ''docx'' then
           file_type f \<noteq> ''application/vnd.openxmlformats-officedocument.wordprocessingml.document''
         else ext = ''constructor'' \<or> ext = ''__proto__'')"

text \<open>The anomalies and the score of the branch before the clamp.\<close>

definition officeChecks :: "js_file \<Rightarrow> string list \<times> real" where
  "officeChecks f =
     (let isSuspiciousSize = file_size f < 10000;
          suspiciousName = hasSuspiciousName (file_name f);
          typeMismatch = hasTypeMismatch f
      in ((if isSuspiciousSize then [''Unusually small file size for a document''] else []) @
          (if suspiciousName then [''Document has a potentially suspicious filename''] else []) @
          (if typeMismatch then [''File extension doesn't match the actual file type''] else []),
          0.9 - (if isSuspiciousSize then 0.3 else 0) - (if suspiciousName then 0.2 else 0)
              - (if typeMismatch then 0.4 else 0)))"

definition verifyOfficeDocument :: "js_file \<Rightarrow> file_update" where
  "verifyOfficeDocument f =
     (let (anomalies, score) = officeChecks f
      in documentVerification anomalies score
           [(''File Size'', formatKB (file_size f)), (''File Type'', file_type f),
            (''File Name'', file_name f)]
           [] 0)"

definition unsupportedFile :: "js_file \<Rightarrow> file_update" where
  "unsupportedFile f =
     \<lparr>moderationStatus = ''safe'',
      verificationDetails =
        PlainDetails
          \<lparr>isLikelyGenuine = True, isLikelyAiGenerated = False, detectedAnomalies = [],
           confidenceScore = 0.5,
           analysisExplanation =
             ''This file type ('' @ file_type f @ '') cannot be verified automatically.''\<rparr>\<rparr>"

definition isOfficeType :: "string \<Rightarrow> bool" where
  "isOfficeType t =
     (t = ''application/msword'' \<or>
      t = ''application/vnd.openxmlformats-officedocument.wordprocessingml.document'')"

definition verifyFile ::
  "(metadata \<Rightarrow> event list \<times> gemini_result promise) \<Rightarrow> browser \<Rightarrow> js_file \<Rightarrow> event list \<times> file_update option" where
  "verifyFile analyze b f =
     (if startsWith (file_type f) ''image/'' then verifyImage analyze b f
      else if file_type f = ''application/pdf'' then verifyPdf analyze b f
      else if isOfficeType (file_type f) then ([], Some (verifyOfficeDocument f))
      else ([], Some (unsupportedFile f)))"

section \<open>The verification route (app/api/gemini-verification/route.ts)\<close>

text \<open>
  The prompt sent to the hosted model is a fixed text with four holes; the model keeps
  what fills them.
\<close>

record prompt =
  prompt_imageType :: string
  prompt_text :: string
  prompt_metadata :: string
  prompt_features :: "real list"

text \<open>
  How the race of \<open>model.generateContent\<close> against the 30 second timer ends, and what
  reading the text of its result gives.
\<close>

datatype llm_outcome = ApiRejects error | TimesOut | ResponseTextThrows | Reply string

text \<open>
  The module's environment: the API key, whether the constructor of the client and
  \<open>getGenerativeModel\<close> throw, the hosted model, \<open>JSON.parse\<close> on the text matched in its
  reply (\<open>None\<close> when it throws), and \<open>Math.random\<close>: \<open>random srv i j\<close> is draw \<open>j\<close> of
  the call of \<open>provideMockResponse\<close> in the \<open>try\<close> block (\<open>i = 0\<close>) or in the \<open>catch\<close>
  (\<open>i = 1\<close>) of the handler.
\<close>

record server =
  GEMINI_API_KEY :: string
  constructorThrows :: bool
  getGenerativeModelThrows :: bool
  generateContent :: "prompt \<Rightarrow> llm_outcome"
  JSON_parse :: "string \<Rightarrow> json option"
  random :: "nat \<Rightarrow> nat \<Rightarrow> real"

text \<open>\<open>genAI\<close> is defined when the key is not empty and the constructor returned.\<close>

definition genAI_defined :: "server \<Rightarrow> bool" where
  "genAI_defined srv = (GEMINI_API_KEY srv \<noteq> [] \<and> \<not> constructorThrows srv)"

text \<open>The module's variables.\<close>

record route_state =
  apiCallsInLastMinute :: nat
  lastResetTime :: int

definition RATE_LIMIT_RESET_INTERVAL :: int where
  "RATE_LIMIT_RESET_INTERVAL = 60000"

text \<open>
  The request's form. \<open>JSON.parse\<close> of a field gives a value of the declared type, or
  \<open>null\<close>, or throws; a field that is absent or empty is not parsed. The image entry is
  absent, a string or a file; of a file the handler uses the type and, as \<open>ff_info\<close>,
  \<open>JSON.parse\<close> of its text (its name and size are only logged).
\<close>

datatype 'a parsed = Unparseable | ParsedNull | Parsed 'a

record file_info =
  fileName :: string
  fileType :: string
  fileSize :: nat
  isPdf :: bool

record form_file =
  ff_type :: string
  ff_info :: "file_info parsed"

datatype image_entry = NoEntry | TextEntry string | FileEntry form_file

record form =
  form_image :: image_entry
  form_features :: "real list parsed option"
  form_metadata :: "metadata parsed option"

text \<open>The JSON body of a response; \<open>None\<close> is a property the body does not have.\<close>

record rate_limit =
  callsInLastMinute :: nat
  resetInMs :: int

record response_body =
  status :: string
  verification :: json
  mockImplementation :: "bool option"
  mockReason :: "string option"
  rateLimit :: "rate_limit option"
  error_flag :: "bool option"
  message :: "string option"

record http_response =
  http_status :: nat
  body :: response_body

subsection \<open>provideMockResponse\<close>

definition userFriendlyReason :: "string \<Rightarrow> string" where
  "userFriendlyReason reason =
     (if str_includes reason ''API key missing'' \<or> str_includes reason ''empty'' then
        ''API configuration issue''
      else if str_includes reason ''Rate limit'' \<or> str_includes reason ''429'' \<or>
              str_includes reason ''quota'' then
        ''API rate limit reached''
      else if str_includes reason ''timeout'' then
        ''API request timed out - document may be too complex''
      else ''API temporarily unavailable'')"

text \<open>\<open>Object.keys\<close> throws a \<open>TypeError\<close> on \<open>null\<close>, here \<open>None\<close>.\<close>

definition Object_keys :: "metadata option \<Rightarrow> error + string list" where
  "Object_keys md =
     (case md of
        None \<Rightarrow> Inl (Error ''Cannot convert undefined or null to object'')
      | Some kvs \<Rightarrow> Inr (map fst kvs))"

definition mockAnalysis :: "(nat \<Rightarrow> real) \<Rightarrow> string \<Rightarrow> metadata option \<Rightarrow> error + json" where
  "mockAnalysis rnd reason md =
     (let isTimeout = str_includes reason ''timeout'';
          shouldFlag = (if isTimeout then rnd 0 < 0.05 else rnd 0 < 0.2)
      in if shouldFlag then
           Inr (JObj
             [(''isLikelyGenuine'', JBool False),
              (''isLikelyAiGenerated'', JBool (rnd 1 < 0.7)),
              (''detectedAnomalies'',
                 JArr [JStr ''Inconsistent text formatting'',
                       JStr ''Potential digital manipulation detected'',
                       JStr ''Unusual metadata patterns'']),
              (''confidenceScore'', JNum (0.75 + rnd 2 * 0.2)),
              (''analysisExplanation'',
                 JStr (''This is a mock verification result. Reason: '' @ userFriendlyReason reason @
                       ''. The document contains some suspicious elements that warrant further review.'')),
              (''moderationStatus'', JStr ''flagged'')])
         else
           (case Object_keys md of
              Inl e \<Rightarrow> Inl e
            | Inr keys \<Rightarrow>
                Inr (JObj
                  [(''isLikelyGenuine'', JBool True),
                   (''isLikelyAiGenerated'', JBool False),
                   (''detectedAnomalies'', JArr []),
                   (''confidenceScore'', JNum (0.85 + rnd 1 * 0.15)),
                   (''analysisExplanation'',
                      JStr (''This is a mock verification result. Reason: '' @ userFriendlyReason reason @
                            ''. Based on available metadata'' @
                            (if keys \<noteq> [] then '' and document properties'' else []) @
                            '', no suspicious elements were detected.'')),
                   (''moderationStatus'', JStr ''safe'')])))"

text \<open>
  \<open>clock\<close> is \<open>Date.now()\<close> when the response is built, \<open>st\<close> the module's variables then.
\<close>

definition provideMockResponse ::
  "(nat \<Rightarrow> real) \<Rightarrow> int \<Rightarrow> route_state \<Rightarrow> nat \<Rightarrow> string \<Rightarrow> metadata option \<Rightarrow> error + http_response" where
  "provideMockResponse rnd clock st callCount reason md =
     (case mockAnalysis rnd reason md of
        Inl e \<Rightarrow> Inl e
      | Inr analysis \<Rightarrow>
          Inr \<lparr>http_status = 200,
               body = \<lparr>status = ''success'', verification = analysis,
                       mockImplementation = Some True, mockReason = Some reason,
                       rateLimit =
                         Some \<lparr>callsInLastMinute = callCount,
                               resetInMs = RATE_LIMIT_RESET_INTERVAL - (clock - lastResetTime st)\<rparr>,
                       error_flag = None, message = None\<rparr>\<rparr>)"

subsection \<open>analyzeWithGemini of the route\<close>

text \<open>\<open>createOptimizedPrompt\<close>: the text is cut at 1000 characters, the metadata at ten entries.\<close>

definition importantMetadataFields :: "string list" where
  "importantMetadataFields =
     [''Title'', ''Author'', ''Creator'', ''Producer'', ''Creation Date'', ''File Type'',
      ''Valid PDF Header'']"

definition createOptimizedPrompt :: "string \<Rightarrow> string \<Rightarrow> real list \<Rightarrow> metadata \<Rightarrow> prompt" where
  "createOptimizedPrompt imageType extractedText imageFeatures documentMetadata =
     (let trimmedText =
            (if length extractedText > 1000
             then take 1000 extractedText @ ''... (text truncated for brevity)''
             else extractedText);
          prioritizedMetadata =
            take 10
              (filter (\<lambda>(key, v). key \<in> set importantMetadataFields) documentMetadata @
               take 5 (filter (\<lambda>(key, v). key \<notin> set importantMetadataFields) documentMetadata));
          metadataString =
            (if prioritizedMetadata \<noteq> [] then
               ''Document metadata:'' @ [CHR 0x0A] @
               join [CHR 0x0A] (map (\<lambda>(key, v). key @ '': '' @ v) prioritizedMetadata)
             else ''No metadata available for this document.'')
      in \<lparr>prompt_imageType = imageType, prompt_text = trimmedText,
          prompt_metadata = metadataString, prompt_features = take 5 imageFeatures\<rparr>)"

text \<open>
  \<open>text.match(/\{[\s\S]*\}/)\<close>: from the first opening brace to the last closing brace
  after it.
\<close>

definition jsonMatch :: "string \<Rightarrow> string option" where
  "jsonMatch text =
     (case dropWhile (\<lambda>c. c \<noteq> CHR ''{'') text of
        [] \<Rightarrow> None
      | c # rest \<Rightarrow>
          (let inner = rev (dropWhile (\<lambda>c. c \<noteq> CHR ''}'') (rev rest))
           in if inner = [] then None else Some (c # inner)))"

text \<open>
  The \<open>try\<close> block: \<open>Inl\<close> is the error thrown in it. The metadata and the features are
  \<open>None\<close> when the form gave \<open>null\<close>; building the prompt then throws a \<open>TypeError\<close>.
\<close>

definition errorMessageOr :: "error \<Rightarrow> string \<Rightarrow> string" where
  "errorMessageOr e fallback = (case e of Error m \<Rightarrow> if m = [] then fallback else m)"

definition analyzeWithGemini_try ::
  "server \<Rightarrow> string \<Rightarrow> string \<Rightarrow> real list option \<Rightarrow> metadata option \<Rightarrow> event list \<times> (error + json)" where
  "analyzeWithGemini_try srv imageType extractedText imageFeatures documentMetadata =
     (if \<not> genAI_defined srv then ([], Inl (Error ''Gemini API not initialized''))
      else if getGenerativeModelThrows srv then
        ([], Inl (Error ''Failed to create Gemini model instance''))
      else
        (case documentMetadata of
           None \<Rightarrow> ([], Inl (Error ''Cannot convert undefined or null to object''))
         | Some md \<Rightarrow>
             (case imageFeatures of
                None \<Rightarrow> ([], Inl (Error ''Cannot read properties of null (reading 'length')''))
              | Some feats \<Rightarrow>
                  (case generateContent srv (createOptimizedPrompt imageType extractedText feats md) of
                     ApiRejects e \<Rightarrow>
                       ([BuildPrompt, CallLLM],
                        Inl (Error (''Gemini API call failed: '' @ errorMessageOr e ''Unknown error'')))
                   | TimesOut \<Rightarrow>
                       ([BuildPrompt, CallLLM],
                        Inl (Error ''Gemini API call failed: API call timed out after 30 seconds''))
                   | ResponseTextThrows \<Rightarrow>
                       ([BuildPrompt, CallLLM],
                        Inl (Error ''Failed to get response text from Gemini API''))
                   | Reply text \<Rightarrow>
                       (case jsonMatch text of
                          None \<Rightarrow>
                            ([BuildPrompt, CallLLM, MatchReply],
                             Inl (Error ''Failed to parse Gemini API response''))
                        | Some matched \<Rightarrow>
                            (case JSON_parse srv matched of
                               None \<Rightarrow>
                                 ([BuildPrompt, CallLLM, MatchReply],
                                  Inl (Error ''Failed to parse Gemini API JSON response''))
                             | Some analysisResult \<Rightarrow>
                                 ([BuildPrompt, CallLLM, MatchReply], Inr analysisResult)))))))"

text \<open>The \<open>catch\<close> of \<open>analyzeWithGemini\<close> returns a mock result instead of throwing.\<close>

definition userFriendlyError :: "string \<Rightarrow> string" where
  "userFriendlyError m =
     (if str_includes m ''429 Too Many Requests'' \<or> str_includes m ''quota'' then
        ''API rate limit reached''
      else if str_includes m ''401'' \<or> str_includes m ''403'' then ''API authentication error''
      else if str_includes m ''timeout'' then ''API request timed out''
      else ''API connection issue'')"

definition mockFallback :: "error \<Rightarrow> json" where
  "mockFallback e =
     (case e of Error m \<Rightarrow>
        JObj [(''isLikelyGenuine'', JBool True),
              (''isLikelyAiGenerated'', JBool False),
              (''detectedAnomalies'', JArr []),
              (''confidenceScore'', JNum 0.9),
              (''analysisExplanation'',
                 JStr (''This is a mock verification result. Reason: '' @ userFriendlyError m))])"

definition analyzeWithGemini_route ::
  "server \<Rightarrow> string \<Rightarrow> string \<Rightarrow> real list option \<Rightarrow> metadata option \<Rightarrow> event list \<times> json" where
  "analyzeWithGemini_route srv imageType extractedText imageFeatures documentMetadata =
     (case analyzeWithGemini_try srv imageType extractedText imageFeatures documentMetadata of
        (calls, Inr analysisResult) \<Rightarrow> (calls, analysisResult)
      | (calls, Inl e) \<Rightarrow> (calls, mockFallback e))"

subsection \<open>The handler POST\<close>

text \<open>The counter of the rate limit, at the start of every request.\<close>

definition rateLimitTick :: "int \<Rightarrow> route_state \<Rightarrow> route_state" where
  "rateLimitTick now st =
     (let st' = (if now - lastResetTime st > RATE_LIMIT_RESET_INTERVAL
                 then \<lparr>apiCallsInLastMinute = 0, lastResetTime = now\<rparr>
                 else st)
      in st'\<lparr>apiCallsInLastMinute := apiCallsInLastMinute st' + 1\<rparr>)"

definition noImageResponse :: http_response where
  "noImageResponse =
     \<lparr>http_status = 200,
      body = \<lparr>status = ''success'',
              verification =
                JObj [(''isLikelyGenuine'', JBool False),
                      (''isLikelyAiGenerated'', JBool False),
                      (''detectedAnomalies'', JArr [JStr ''No image provided'']),
                      (''confidenceScore'', JNum 0),
                      (''analysisExplanation'', JStr ''No image file was provided for verification.''),
                      (''moderationStatus'', JStr ''flagged'')],
              mockImplementation = Some True, mockReason = None, rateLimit = None,
              error_flag = Some True, message = Some ''No image file provided''\<rparr>\<rparr>"

text \<open>\<open>!imageFile\<close>: the entry is absent or the empty string.\<close>

definition imageMissing :: "image_entry \<Rightarrow> bool" where
  "imageMissing entry = (entry = NoEntry \<or> entry = TextEntry [])"

text \<open>
  A field of the form after its \<open>try\<close> block: the default when the field is absent or
  does not parse, \<open>None\<close> when it parses to \<open>null\<close>.
\<close>

definition parseField :: "'a parsed option \<Rightarrow> 'a \<Rightarrow> 'a option" where
  "parseField raw fallback =
     (case raw of
        None \<Rightarrow> Some fallback
      | Some Unparseable \<Rightarrow> Some fallback
      | Some ParsedNull \<Rightarrow> None
      | Some (Parsed v) \<Rightarrow> Some v)"

definition setIfMissing :: "string \<Rightarrow> string \<Rightarrow> metadata \<Rightarrow> metadata" where
  "setIfMissing key v md =
     (case map_of md key of
        None \<Rightarrow> AList.update key v md
      | Some old \<Rightarrow> if old = [] then AList.update key v md else md)"

text \<open>
  The block that recognises the JSON file the uploader sends in place of a large PDF.
  The flag is set before the metadata is written, so it stays set when the metadata is
  \<open>null\<close> and the write throws.
\<close>

definition optimizedPdf :: "image_entry \<Rightarrow> metadata option \<Rightarrow> bool \<times> metadata option" where
  "optimizedPdf entry documentMetadata =
     (case entry of
        FileEntry imageFile \<Rightarrow>
          (if ff_type imageFile = ''application/json'' then
             (case ff_info imageFile of
                Parsed fileInfo \<Rightarrow>
                  (if isPdf fileInfo \<and> fileName fileInfo \<noteq> [] \<and> fileType fileInfo = ''application/pdf''
                   then
                     (True,
                      map_option
                        (\<lambda>md. AList.update ''Optimized'' ''Yes - Large PDF file''
                                (setIfMissing ''File Type'' (fileType fileInfo)
                                  (setIfMissing ''File Size'' (formatKB (fileSize fileInfo))
                                    (setIfMissing ''File Name'' (fileName fileInfo) md))))
                        documentMetadata)
                   else (False, documentMetadata))
              | _ \<Rightarrow> (False, documentMetadata))
           else (False, documentMetadata))
      | _ \<Rightarrow> (False, documentMetadata))"

text \<open>The route's own \<open>extractTextFromImage\<close> is a stub that returns a fixed text.\<close>

definition extractTextFromImage_route :: string where
  "extractTextFromImage_route = ''Sample extracted text from document''"

text \<open>
  The \<open>try\<close> block of the handler, after the counter was updated to \<open>st\<close>. \<open>now\<close> is
  \<open>Date.now()\<close> at the start of the request, \<open>clock\<close> the same call when a mock response is
  built. \<open>req\<close> is the outcome of \<open>request.formData()\<close>. An image entry that is a string has
  no \<open>arrayBuffer\<close> method, and calling it throws. \<open>analyzeWithGemini\<close> does not throw, so
  the \<open>catch\<close> around its call is not a branch.
\<close>

definition POST_try ::
  "server \<Rightarrow> int \<Rightarrow> int \<Rightarrow> error + form \<Rightarrow> route_state \<Rightarrow> event list \<times> (error + http_response)" where
  "POST_try srv now clock req st =
     (if GEMINI_API_KEY srv = [] then
        ([], provideMockResponse (random srv 0) clock st (apiCallsInLastMinute st)
               ''API key missing'' (Some []))
      else
        (case req of
           Inl e \<Rightarrow> ([], Inl e)
         | Inr formData \<Rightarrow>
             (if imageMissing (form_image formData) then ([], Inr noImageResponse)
              else
                (let imageFeatures = parseField (form_features formData) [];
                     (isOptimizedPdf, documentMetadata) =
                       optimizedPdf (form_image formData) (parseField (form_metadata formData) [])
                 in if apiCallsInLastMinute st > 10 then
                      ([], provideMockResponse (random srv 0) clock st (apiCallsInLastMinute st)
                             ''Rate limit exceeded'' documentMetadata)
                    else
                      (case form_image formData of
                         FileEntry imageFile \<Rightarrow>
                           (let extractedText =
                                  (if isOptimizedPdf then ''Large PDF document - metadata-only analysis''
                                   else extractTextFromImage_route);
                                (calls, analysisResult) =
                                  analyzeWithGemini_route srv
                                    (if isOptimizedPdf then ''application/pdf'' else ff_type imageFile)
                                    extractedText imageFeatures documentMetadata
                            in (calls,
                                Inr \<lparr>http_status = 200,
                                     body =
                                       \<lparr>status = ''success'',
                                        verification = withModerationStatus analysisResult,
                                        mockImplementation = None, mockReason = None,
                                        rateLimit =
                                          Some \<lparr>callsInLastMinute = apiCallsInLastMinute st,
                                                resetInMs = RATE_LIMIT_RESET_INTERVAL - (now - lastResetTime st)\<rparr>,
                                        error_flag = None, message = None\<rparr>\<rparr>))
                       | _ \<Rightarrow> ([], Inl (Error ''imageFile.arrayBuffer is not a function'')))))))"

text \<open>
  The handler: the counter, the \<open>try\<close> block and its \<open>catch\<close>, which answers with a mock
  response. An exception of the \<open>catch\<close> itself would reject the handler's promise.
\<close>

definition POST ::
  "server \<Rightarrow> int \<Rightarrow> int \<Rightarrow> error + form \<Rightarrow> route_state \<Rightarrow> event list \<times> http_response promise \<times> route_state" where
  "POST srv now clock req st0 =
     (let st = rateLimitTick now st0
      in (case POST_try srv now clock req st of
            (calls, Inr response) \<Rightarrow> (calls, Resolved response, st)
          | (calls, Inl e) \<Rightarrow>
              (case provideMockResponse (random srv 1) clock st (apiCallsInLastMinute st)
                      (errorMessageOr e ''Unknown error'') (Some []) of
                 Inr response \<Rightarrow> (calls, Resolved response, st)
               | Inl e' \<Rightarrow> (calls, Rejected e', st))))"

section \<open>The uploader's call of the route\<close>






section \<open>The admin routes (app/api/admin/users and app/api/admin/make-admin)\<close>

text \<open>
  The Firebase services as the two handlers use them: \<open>verifyIdToken\<close> gives the user id
  of a valid token and throws otherwise (\<open>None\<close>); \<open>getUser\<close> resolves for the ids in
  \<open>authUserIds\<close> and throws otherwise; \<open>listUsers\<close> resolves with the users or throws; and
  each kind of Firestore access may throw. The documents of the \<open>users\<close> collection are
  the state, an association list from the document id to the fields.
\<close>

record auth_user =
  au_uid :: string
  au_fields :: "(string \<times> json) list"

record firebase =
  verifyIdToken :: "string \<Rightarrow> string option"
  authUserIds :: "string list"
  listUsers :: "error + auth_user list"
  docReadThrows :: bool
  collectionReadThrows :: bool
  docWriteThrows :: bool
  isoNow :: string

type_synonym users_collection = "(string \<times> (string \<times> json) list) list"

text \<open>The privileged calls a handler makes.\<close>

datatype admin_call = ListUsers | GrantAdmin string

datatype admin_body =
    ErrorBody string
  | UsersBody "(string \<times> json) list list"
  | GrantedBody string

record admin_response =
  admin_status :: nat
  admin_body :: admin_body

text \<open>
  \<open>userData?.isAdmin === true\<close> on the document of a user, and \<open>isAdmin\<close>, which is
  \<open>false\<close> when the read throws.
\<close>

definition hasAdminFlag :: "users_collection \<Rightarrow> string \<Rightarrow> bool" where
  "hasAdminFlag docs userId =
     (case map_of docs userId of
        None \<Rightarrow> False
      | Some userData \<Rightarrow> map_of userData ''isAdmin'' = Some (JBool True))"

definition isAdmin :: "firebase \<Rightarrow> users_collection \<Rightarrow> string \<Rightarrow> bool" where
  "isAdmin fb docs userId = (if docReadThrows fb then False else hasAdminFlag docs userId)"

text \<open>\<open>!authHeader || !authHeader.startsWith('Bearer ')\<close>, for a header that may be absent.\<close>

definition unauthorized :: "string option \<Rightarrow> bool" where
  "unauthorized authHeader =
     (case authHeader of
        None \<Rightarrow> True
      | Some h \<Rightarrow> h = [] \<or> \<not> startsWith h ''Bearer '')"

text \<open>
  \<open>authHeader.split('Bearer ')[1]\<close> for a header that starts with the separator: what
  follows it, up to its next occurrence.
\<close>

fun upTo :: "string \<Rightarrow> string \<Rightarrow> string" where
  "upTo sep [] = []"
| "upTo sep (c # cs) = (if prefix sep (c # cs) then [] else c # upTo sep cs)"

definition bearerToken :: "string \<Rightarrow> string" where
  "bearerToken h = upTo ''Bearer '' (drop (length ''Bearer '') h)"

text \<open>
  The two checks both handlers start with: \<open>Inl\<close> is the response that ends the request,
  \<open>Inr\<close> the id of the administrator. A token that does not verify throws, and the
  handler's \<open>catch\<close> answers 500.
\<close>

definition internalError :: admin_response where
  "internalError = \<lparr>admin_status = 500, admin_body = ErrorBody ''Internal server error''\<rparr>"

definition authorize :: "firebase \<Rightarrow> users_collection \<Rightarrow> string option \<Rightarrow> admin_response + string" where
  "authorize fb docs authHeader =
     (case authHeader of
        None \<Rightarrow> Inl \<lparr>admin_status = 401, admin_body = ErrorBody ''Unauthorized''\<rparr>
      | Some h \<Rightarrow>
          (if h = [] \<or> \<not> startsWith h ''Bearer '' then
             Inl \<lparr>admin_status = 401, admin_body = ErrorBody ''Unauthorized''\<rparr>
           else
             (case verifyIdToken fb (bearerToken h) of
                None \<Rightarrow> Inl internalError
              | Some userId \<Rightarrow>
                  (if \<not> isAdmin fb docs userId then
                     Inl \<lparr>admin_status = 403, admin_body = ErrorBody ''Forbidden''\<rparr>
                   else Inr userId))))"

text \<open>The handler \<open>GET\<close> of the users route.\<close>

definition mergeFields :: "(string \<times> json) list \<Rightarrow> (string \<times> json) list \<Rightarrow> (string \<times> json) list" where
  "mergeFields base extra = foldl (\<lambda>acc (k, v). AList.update k v acc) base extra"

definition GET_users ::
  "firebase \<Rightarrow> users_collection \<Rightarrow> string option \<Rightarrow> admin_call list \<times> admin_response" where
  "GET_users fb docs authHeader =
     (case authorize fb docs authHeader of
        Inl response \<Rightarrow> ([], response)
      | Inr userId \<Rightarrow>
          (case listUsers fb of
             Inl e \<Rightarrow> ([ListUsers], internalError)
           | Inr users \<Rightarrow>
               (if collectionReadThrows fb then ([ListUsers], internalError)
                else
                  ([ListUsers],
                   \<lparr>admin_status = 200,
                    admin_body =
                      UsersBody
                        (map (\<lambda>user.
                                mergeFields ((''uid'', JStr (au_uid user)) # au_fields user)
                                  (case map_of (take 100 docs) (au_uid user) of
                                     None \<Rightarrow> []
                                   | Some userData \<Rightarrow> userData))
                           users)\<rparr>))))"

text \<open>
  The handler \<open>POST\<close> of the make-admin route. \<open>requestBody\<close> is the outcome of
  \<open>request.json()\<close>, \<open>None\<close> when it throws; destructuring \<open>null\<close> throws as well. The
  result carries the collection after the request.
\<close>

definition POST_make_admin ::
  "firebase \<Rightarrow> users_collection \<Rightarrow> string option \<Rightarrow> json option \<Rightarrow>
     admin_call list \<times> admin_response \<times> users_collection" where
  "POST_make_admin fb docs authHeader requestBody =
     (case authorize fb docs authHeader of
        Inl response \<Rightarrow> ([], response, docs)
      | Inr userId \<Rightarrow>
          (case requestBody of
             None \<Rightarrow> ([], internalError, docs)
           | Some JNull \<Rightarrow> ([], internalError, docs)
           | Some requestJson \<Rightarrow>
               (let targetUserId = obj_get ''targetUserId'' requestJson
                in if \<not> truthy targetUserId then
                     ([], \<lparr>admin_status = 400, admin_body = ErrorBody ''Target user ID is required''\<rparr>, docs)
                   else
                     (case targetUserId of
                        Some (JStr target) \<Rightarrow>
                          (if target \<notin> set (authUserIds fb) then
                             ([], \<lparr>admin_status = 404, admin_body = ErrorBody ''User not found''\<rparr>, docs)
                           else if docWriteThrows fb then ([GrantAdmin target], internalError, docs)
                           else
                             ([GrantAdmin target],
                              \<lparr>admin_status = 200,
                               admin_body = GrantedBody ''User has been granted admin privileges''\<rparr>,
                              AList.update target
                                (mergeFields (case map_of docs target of None \<Rightarrow> [] | Some d \<Rightarrow> d)
                                   [(''isAdmin'', JBool True), (''updatedAt'', JStr (isoNow fb)),
                                    (''updatedBy'', JStr userId)])
                                docs))
                      | _ \<Rightarrow>
                          ([], \<lparr>admin_status = 404, admin_body = ErrorBody ''User not found''\<rparr>, docs)))))"

subsection \<open>Concrete inputs\<close>

text \<open>
  The ASCII fragment of \<open>decodeURIComponent\<close>, to run the model on concrete files. It
  is ECMAScript's function on every text whose percent signs are malformed escapes (a
  \<open>URIError\<close>) or escapes of ASCII bytes; escapes of bytes above \<open>0x7F\<close> are outside the
  fragment. The theorems below hold for any \<open>decodeURIComponent\<close>.
\<close>

definition hexValue :: "char \<Rightarrow> nat option" where
  "hexValue c = map_of (zip ''0123456789abcdefABCDEF'' ([0 ..< 16] @ [10 ..< 16])) c"

fun decodeURIComponent_ascii :: "string \<Rightarrow> error + string" where
  "decodeURIComponent_ascii [] = Inr []"
| "decodeURIComponent_ascii (c # cs) =
     (if c = CHR ''%'' then
        (case cs of
           h1 # h2 # rest \<Rightarrow>
             (case (hexValue h1, hexValue h2) of
                (Some a, Some b) \<Rightarrow>
                  (if 16 * a + b < 128 then
                     (case decodeURIComponent_ascii rest of
                        Inl e \<Rightarrow> Inl e
                      | Inr r \<Rightarrow> Inr (char_of (16 * a + b) # r))
                   else Inl (Error ''URI malformed''))
              | _ \<Rightarrow> Inl (Error ''URI malformed''))
         | _ \<Rightarrow> Inl (Error ''URI malformed''))
      else
        (case decodeURIComponent_ascii cs of
           Inl e \<Rightarrow> Inl e
         | Inr r \<Rightarrow> Inr (c # r)))"

text \<open>A browser in which every call succeeds; the OCR engine reads two letters.\<close>

definition browser0 :: browser where
  "browser0 =
     \<lparr>imageLoads = True, readable = True,
      recognize = Inr \<lparr>data_text = Some ''Hi'', data_confidence = 12\<rparr>,
      modelLoaded = True, classify = Inr [0.8, 0.1, 0.05],
      naturalWidth = 800, naturalHeight = 600,
      decodeURIComponent = decodeURIComponent_ascii, fetchFails = False\<rparr>"

definition photo0 :: js_file where
  "photo0 = \<lparr>file_name = ''scan.png'', file_type = ''image/png'',
              file_bytes = ''not a real picture'', lastModifiedText = ''1/1/2025''\<rparr>"

text \<open>
  PDF files: one whose producer entry does not decode, one that names AI tools, and one
  of more than 10000 bytes with the four standard entries.
\<close>

definition pdf_ai :: js_file where
  "pdf_ai = \<lparr>file_name = ''report.pdf'', file_type = ''application/pdf'',
              file_bytes = ''%PDF-1.4 /Creator (AI Writer) /Producer (100%)'',
              lastModifiedText = ''1/1/2025''\<rparr>"

definition pdf_gpt :: js_file where
  "pdf_gpt = \<lparr>file_name = ''report.pdf'', file_type = ''application/pdf'',
               file_bytes = ''%PDF-1.4 /Creator (ChatGPT) /Producer (Stable Diffusion PDF)'',
               lastModifiedText = ''1/1/2025''\<rparr>"

definition clean_pdf :: js_file where
  "clean_pdf =
     \<lparr>file_name = ''report.pdf'', file_type = ''application/pdf'',
      file_bytes =
        ''%PDF-1.4 /Title (Annual report) /Author (J. Doe) /Creator (Writer) /Producer (LibreOffice)'' @
        replicate 10000 (CHR 0x20),
      lastModifiedText = ''1/1/2025''\<rparr>"

text \<open>
  Word-processor files whose type is the one of \<open>.docx\<close> files and whose name ends in
  \<open>.doc\<close>: one of 20000 bytes, one of four bytes with a suspicious name.
\<close>

definition report_doc :: js_file where
  "report_doc =
     \<lparr>file_name = ''report.doc'',
      file_type = ''application/vnd.openxmlformats-officedocument.wordprocessingml.document'',
      file_bytes = replicate 20000 (CHR ''x''), lastModifiedText = ''1/1/2025''\<rparr>"

definition test_doc :: js_file where
  "test_doc =
     \<lparr>file_name = ''test.doc'',
      file_type = ''application/vnd.openxmlformats-officedocument.wordprocessingml.document'',
      file_bytes = ''tiny'', lastModifiedText = ''1/1/2025''\<rparr>"

text \<open>
  A route whose hosted model answers every prompt with a sentence and an empty JSON
  object, its variables at the start and after ten requests, and two forms: one with a
  picture, one without an image.
\<close>

definition server0 :: server where
  "server0 =
     \<lparr>GEMINI_API_KEY = ''test-key'', constructorThrows = False, getGenerativeModelThrows = False,
      generateContent = (\<lambda>p. Reply ''The document looks fine. {}''),
      JSON_parse = (\<lambda>s. if s = ''{}'' then Some (JObj []) else None),
      random = (\<lambda>i j. 0.5)\<rparr>"


definition state10 :: route_state where
  "state10 = \<lparr>apiCallsInLastMinute = 10, lastResetTime = 0\<rparr>"

definition form_photo :: form where
  "form_photo =
     \<lparr>form_image = FileEntry \<lparr>ff_type = ''image/png'', ff_info = Unparseable\<rparr>,
      form_features = None, form_metadata = None\<rparr>"

definition form_empty :: form where
  "form_empty = \<lparr>form_image = NoEntry, form_features = None, form_metadata = None\<rparr>"

subsection \<open>Mock results and failing analyses\<close>

text \<open>
  Both mock results of the route, the one of \<open>provideMockResponse\<close> and the one of the
  \<open>catch\<close> in \<open>analyzeWithGemini\<close>, say so at the start of their explanation.
\<close>

definition isMockVerification :: "json \<Rightarrow> bool" where
  "isMockVerification v =
     (case obj_get ''analysisExplanation'' v of
        Some (JStr s) \<Rightarrow> prefix ''This is a mock verification result. Reason: '' s
      | _ \<Rightarrow> False)"



text \<open>
  Firebase with the users alice, who is an administrator, and bob, whose tokens are
  \<open>tok-alice\<close> and \<open>tok-bob\<close>.
\<close>

definition firebase0 :: firebase where
  "firebase0 =
     \<lparr>verifyIdToken =
        (\<lambda>token. if token = ''tok-alice'' then Some ''alice''
                 else if token = ''tok-bob'' then Some ''bob'' else None),
      authUserIds = [''alice'', ''bob''],
      listUsers = Inr [\<lparr>au_uid = ''alice'', au_fields = [(''email'', JStr ''alice@example.org'')]\<rparr>,
                       \<lparr>au_uid = ''bob'', au_fields = [(''email'', JStr ''bob@example.org'')]\<rparr>],
      docReadThrows = False, collectionReadThrows = False, docWriteThrows = False,
      isoNow = ''2025-01-01T00:00:00.000Z''\<rparr>"

definition users0 :: users_collection where
  "users0 = [(''alice'', [(''isAdmin'', JBool True)]), (''bob'', [(''isAdmin'', JBool False)])]"

subsection \<open>Requests that pass the checks of the admin routes\<close>

text \<open>
  A request passes the two checks when its authorization header starts with
  \<open>Bearer\<close> and a space, its token verifies, and the document of the token's user has
  \<open>isAdmin === true\<close>.
\<close>

definition authorized :: "firebase \<Rightarrow> users_collection \<Rightarrow> string option \<Rightarrow> bool" where
  "authorized fb docs authHeader =
     (case authHeader of
        None \<Rightarrow> False
      | Some h \<Rightarrow>
          startsWith h ''Bearer '' \<and>
          (case verifyIdToken fb (bearerToken h) of
             None \<Rightarrow> False
           | Some userId \<Rightarrow> hasAdminFlag docs userId))"

subsection \<open>The calls of one request\<close>


subsection \<open>The penalties of the flags\<close>

text \<open>
  The anomaly descriptions of the uploader's own checks, each with the amount the code
  subtracts from the confidence score where it records the anomaly.
\<close>

definition flagPenalties :: "(string \<times> real) list" where
  "flagPenalties =
     [(''Unusually small file size for a document'', 0.3),
      (''Document has a potentially suspicious filename'', 0.2),
      (''File extension doesn't match the actual file type'', 0.4),
      (''Unusually small file size for a PDF'', 0.2),
      (''File does not have a valid PDF header'', 0.5),
      (''File does not have the correct PDF MIME type'', 0.3),
      (''Document creator suggests AI generation'', 0.3),
      (''Document producer suggests AI generation'', 0.3),
      (''Document is missing most standard metadata fields'', 0.2),
      (termsDescription, 0.2),
      (disclaimerDescription, 0.2)]"

definition penalty :: "string \<Rightarrow> real" where
  "penalty a = (case map_of flagPenalties a of Some p \<Rightarrow> p | None \<Rightarrow> 0)"

text \<open>A score that is a start value less the penalties of the recorded anomalies.\<close>

definition scored :: "real \<Rightarrow> string list \<times> real \<Rightarrow> bool" where
  "scored start r =
     (snd r = start - sum_list (map penalty (fst r)) \<and>
      list_all (\<lambda>a. penalty a \<in> {0.2, 0.3, 0.4, 0.5}) (fst r))"

section \<open>Properties\<close>

lemma length_collapseSpaces: "length (collapseSpaces inRun s) \<le> length s"
  by (induction s arbitrary: inRun) (auto simp: le_SucI)

lemma length_trim: "length (trim s) \<le> length s"
proof -
  have "length (trim s) \<le> length (dropWhile isSpace s)"
    unfolding trim_def by (metis length_dropWhile_le length_rev)
  also have "\<dots> \<le> length s"
    by (rule length_dropWhile_le)
  finally show ?thesis .
qed

lemma length_cleanText: "length (cleanText s) \<le> length s"
  unfolding cleanText_def
  by (rule order_trans [OF length_trim length_collapseSpaces])

subsection \<open>extractTextFromImage never rejects\<close>

text \<open>
  C10. \<open>extractTextFromImage\<close> resolves for every file and every answer of the browser
  and of the OCR engine, never rejecting and never pending. A PDF gets the fixed
  placeholder with confidence 0.5; when the image does not load or the OCR engine throws,
  the result is the fallback message with confidence 0; when the OCR engine returns a text
  whose cleaned form has fewer than 5 characters, with a confidence below 0.3 on the 0-1
  scale, the result is the fixed "No meaningful text" message with confidence 0.1. A raw
  text of fewer than 5 characters has a cleaned form of fewer than 5 characters.
\<close>

theorem extractTextFromImage_resolves:
  "(\<exists>r. snd (extractTextFromImage b f) = Resolved r) \<and>
   (file_type f = ''application/pdf'' \<longrightarrow>
      snd (extractTextFromImage b f) =
        Resolved \<lparr>ocr_text = ''PDF text extraction requires server-side processing.'',
                  ocr_confidence = 0.5\<rparr>) \<and>
   (file_type f \<noteq> ''application/pdf'' \<and> (\<not> imageLoads b \<or> (\<exists>e. recognize b = Inl e)) \<longrightarrow>
      snd (extractTextFromImage b f) =
        Resolved \<lparr>ocr_text = ''Text extraction failed. The document may be encrypted, damaged, or in an unsupported format.'',
                  ocr_confidence = 0\<rparr>) \<and>
   (file_type f \<noteq> ''application/pdf'' \<and> imageLoads b \<and> recognize b = Inr d \<and>
    data_confidence d / 100 < 0.3 \<and>
    (length (cleanText (case data_text d of None \<Rightarrow> [] | Some t \<Rightarrow> t)) < 5 \<or>
     length (case data_text d of None \<Rightarrow> [] | Some t \<Rightarrow> t) < 5) \<longrightarrow>
      snd (extractTextFromImage b f) =
        Resolved \<lparr>ocr_text = ''No meaningful text could be extracted from this document.'',
                  ocr_confidence = 0.1\<rparr>)"
proof (intro conjI impI)
  show "\<exists>r. snd (extractTextFromImage b f) = Resolved r"
    by (auto simp: extractTextFromImage_def split: prod.splits sum.splits)
next
  assume "file_type f = ''application/pdf''"
  then show "snd (extractTextFromImage b f) =
        Resolved \<lparr>ocr_text = ''PDF text extraction requires server-side processing.'',
                  ocr_confidence = 0.5\<rparr>"
    by (simp add: extractTextFromImage_def extractTextFromImage_try_def)
next
  assume "file_type f \<noteq> ''application/pdf'' \<and> (\<not> imageLoads b \<or> (\<exists>e. recognize b = Inl e))"
  then show "snd (extractTextFromImage b f) =
        Resolved \<lparr>ocr_text = ''Text extraction failed. The document may be encrypted, damaged, or in an unsupported format.'',
                  ocr_confidence = 0\<rparr>"
    by (auto simp: extractTextFromImage_def extractTextFromImage_try_def)
next
  let ?raw = "case data_text d of None \<Rightarrow> [] | Some t \<Rightarrow> t"
  assume a: "file_type f \<noteq> ''application/pdf'' \<and> imageLoads b \<and> recognize b = Inr d \<and>
    data_confidence d / 100 < 0.3 \<and> (length (cleanText ?raw) < 5 \<or> length ?raw < 5)"
  have "length (cleanText ?raw) \<le> length ?raw"
    by (rule length_cleanText)
  with a have short: "length (cleanText ?raw) < 5"
    by auto
  from a short show "snd (extractTextFromImage b f) =
        Resolved \<lparr>ocr_text = ''No meaningful text could be extracted from this document.'',
                  ocr_confidence = 0.1\<rparr>"
    by (simp add: extractTextFromImage_def extractTextFromImage_try_def Let_def)
qed

theorem extractTextFromImage_resolves_witness:
  "snd (extractTextFromImage browser0 (photo0\<lparr>file_type := ''application/pdf''\<rparr>)) =
     Resolved \<lparr>ocr_text = ''PDF text extraction requires server-side processing.'',
               ocr_confidence = 0.5\<rparr> \<and>
   snd (extractTextFromImage (browser0\<lparr>imageLoads := False\<rparr>) photo0) =
     Resolved \<lparr>ocr_text = ''Text extraction failed. The document may be encrypted, damaged, or in an unsupported format.'',
               ocr_confidence = 0\<rparr> \<and>
   snd (extractTextFromImage browser0 photo0) =
     Resolved \<lparr>ocr_text = ''No meaningful text could be extracted from this document.'',
               ocr_confidence = 0.1\<rparr>"
  using extractTextFromImage_resolves
          [of browser0 "photo0\<lparr>file_type := ''application/pdf''\<rparr>"]
        extractTextFromImage_resolves
          [of "browser0\<lparr>imageLoads := False\<rparr>" photo0]
        extractTextFromImage_resolves
          [of browser0 photo0 "\<lparr>data_text = Some ''Hi'', data_confidence = 12\<rparr>"]
  by (simp add: browser0_def photo0_def)

subsection \<open>Evaluation on the concrete inputs\<close>

lemmas string_eval =
  isSpace_def isLineTerminator_def isWordChar_def isLowerHex_def toLowerChar_def toLowerCase_def
  startsWith_def digit_def formatKB_def

lemmas pdf_eval =
  pdfChecks_def file_size_def readFileHeader_def hasSuspiciousName_def
  pdfContentAnalysis_def readFileAsText_def metadataFields_def matchFieldAt_def
  metadataPatternCheck_def suggestsAI_def missingMetadataCount_def
  suspiciousCreators_def suspiciousProducers_def browser0_def

lemmas office_eval =
  officeChecks_def file_size_def hasSuspiciousName_def hasTypeMismatch_def declaredExtension_def

lemma report_doc_checks:
  "officeChecks report_doc = ([''File extension doesn't match the actual file type''], 0.5)"
  by (simp add: report_doc_def office_eval string_eval)

lemma test_doc_checks:
  "officeChecks test_doc =
     ([''Unusually small file size for a document'',
       ''Document has a potentially suspicious filename'',
       ''File extension doesn't match the actual file type''], 0)"
  by (simp add: test_doc_def office_eval string_eval)

lemma clean_pdf_checks: "snd (pdfChecks browser0 clean_pdf) = ([], 0.95)"
  by (simp add: clean_pdf_def pdf_eval string_eval)

lemma pdf_ai_checks:
  "pdfChecks browser0 pdf_ai =
     ([(''File Name'', ''report.pdf''), (''File Size'', ''0.04 KB''),
       (''File Type'', ''application/pdf''), (''Valid PDF Header'', ''Yes''),
       (''Last Modified'', ''1/1/2025''), (''Creator'', ''AI Writer''),
       (''Status'', ''Limited metadata extraction'')],
      [''Unusually small file size for a PDF''], 0.75)"
  by (simp add: pdf_ai_def pdf_eval string_eval)

lemma pdf_gpt_checks:
  "pdfChecks browser0 pdf_gpt =
     ([(''File Name'', ''report.pdf''), (''File Size'', ''0.06 KB''),
       (''File Type'', ''application/pdf''), (''Valid PDF Header'', ''Yes''),
       (''Last Modified'', ''1/1/2025''), (''Creator'', ''ChatGPT''),
       (''Producer'', ''Stable Diffusion PDF'')],
      [''Unusually small file size for a PDF'',
       ''Document creator suggests AI generation'',
       ''Document producer suggests AI generation''], 0.15)"
  by (simp add: pdf_gpt_def pdf_eval string_eval)

subsection \<open>The scores of the uploader's own checks\<close>

lemma penalty_simps:
  "penalty ''Unusually small file size for a document'' = 0.3"
  "penalty ''Document has a potentially suspicious filename'' = 0.2"
  "penalty ''File extension doesn't match the actual file type'' = 0.4"
  "penalty ''Unusually small file size for a PDF'' = 0.2"
  "penalty ''File does not have a valid PDF header'' = 0.5"
  "penalty ''File does not have the correct PDF MIME type'' = 0.3"
  "penalty ''Document creator suggests AI generation'' = 0.3"
  "penalty ''Document producer suggests AI generation'' = 0.3"
  "penalty ''Document is missing most standard metadata fields'' = 0.2"
  "penalty termsDescription = 0.2"
  "penalty disclaimerDescription = 0.2"
  by (simp_all add: penalty_def flagPenalties_def termsDescription_def disclaimerDescription_def)

lemma office_scored: "scored 0.9 (officeChecks f)"
  by (simp add: scored_def officeChecks_def Let_def penalty_simps)

lemma metadataPatternCheck_eq:
  "metadataPatternCheck md (an, sc) =
     (an @ (if suggestsAI md ''Creator'' suspiciousCreators
            then [''Document creator suggests AI generation''] else [])
         @ (if suggestsAI md ''Producer'' suspiciousProducers
            then [''Document producer suggests AI generation''] else [])
         @ (if 3 \<le> missingMetadataCount md
            then [''Document is missing most standard metadata fields''] else []),
      sc - (if suggestsAI md ''Creator'' suspiciousCreators then 0.3 else 0)
         - (if suggestsAI md ''Producer'' suspiciousProducers then 0.3 else 0)
         - (if 3 \<le> missingMetadataCount md then 0.2 else 0))"
  by (simp add: metadataPatternCheck_def)

lemma scored_metadataPatternCheck:
  "scored s (an, sc) \<Longrightarrow> scored s (metadataPatternCheck md (an, sc))"
  by (auto simp: scored_def metadataPatternCheck_eq penalty_simps)

text \<open>The extraction blocks write no \<open>Status\<close> entry.\<close>

lemma extractFields_other:
  "k \<notin> fst ` set fs \<Longrightarrow> map_of (fst (extractFields b c fs md)) k = map_of md k"
  by (induction b c fs md rule: extractFields.induct)
     (auto simp: update_conv' split: option.splits sum.splits)

text \<open>
  For a file with the PDF header, either reading or decoding threw, the metadata has the
  \<open>Status\<close> entry and anomalies and score are as before; or the checks on the metadata ran
  and there is no such entry.
\<close>

lemma pdfContentAnalysis_cases:
  assumes "map_of md ''Status'' = None"
  shows "(\<exists>md'. pdfContentAnalysis b f True (md, an, sc) = (md', an, sc) \<and>
                map_of md' ''Status'' = Some ''Limited metadata extraction'') \<or>
         (\<exists>md'. pdfContentAnalysis b f True (md, an, sc) = (md', metadataPatternCheck md' (an, sc)) \<and>
                map_of md' ''Status'' = None)"
proof (cases "readFileAsText b f")
  case (Inl e)
  then show ?thesis by (simp add: pdfContentAnalysis_def update_conv')
next
  case (Inr content)
  obtain md' r where ef: "extractFields b content metadataFields md = (md', r)"
    by (cases "extractFields b content metadataFields md")
  have keep: "map_of md' ''Status'' = map_of md ''Status''"
    using extractFields_other [of "''Status''" metadataFields b content md] ef
    by (simp add: metadataFields_def)
  show ?thesis
  proof (cases r)
    case None
    with Inr ef keep assms show ?thesis
      by (auto simp: pdfContentAnalysis_def split: prod.splits)
  next
    case (Some e)
    with Inr ef show ?thesis
      by (simp add: pdfContentAnalysis_def update_conv')
  qed
qed

text \<open>\<open>pdfChecks\<close> as the content analysis of the state after the four file checks.\<close>

lemma pdfChecks_unfold:
  "pdfChecks b f =
     pdfContentAnalysis b f (readFileHeader f 5 = ''%PDF-'')
       ([(''File Name'', file_name f), (''File Size'', formatKB (file_size f)),
         (''File Type'', file_type f),
         (''Valid PDF Header'', if readFileHeader f 5 = ''%PDF-'' then ''Yes'' else ''No''),
         (''Last Modified'', lastModifiedText f)],
        (if file_size f < 10000 then [''Unusually small file size for a PDF''] else []) @
        (if readFileHeader f 5 \<noteq> ''%PDF-'' then [''File does not have a valid PDF header''] else []) @
        (if file_type f \<noteq> ''application/pdf'' then [''File does not have the correct PDF MIME type''] else []) @
        (if hasSuspiciousName (toLowerCase (file_name f))
         then [''Document has a potentially suspicious filename''] else []),
        0.95 - (if file_size f < 10000 then 0.2 else 0)
             - (if readFileHeader f 5 \<noteq> ''%PDF-'' then 0.5 else 0)
             - (if file_type f \<noteq> ''application/pdf'' then 0.3 else 0)
             - (if hasSuspiciousName (toLowerCase (file_name f)) then 0.2 else 0))"
  by (simp add: pdfChecks_def Let_def)

lemma pdf_scored: "scored 0.95 (snd (pdfChecks b f))"
proof -
  let ?md = "[(''File Name'', file_name f), (''File Size'', formatKB (file_size f)),
         (''File Type'', file_type f),
         (''Valid PDF Header'', if readFileHeader f 5 = ''%PDF-'' then ''Yes'' else ''No''),
         (''Last Modified'', lastModifiedText f)]"
  let ?an = "(if file_size f < 10000 then [''Unusually small file size for a PDF''] else []) @
        (if readFileHeader f 5 \<noteq> ''%PDF-'' then [''File does not have a valid PDF header''] else []) @
        (if file_type f \<noteq> ''application/pdf'' then [''File does not have the correct PDF MIME type''] else []) @
        (if hasSuspiciousName (toLowerCase (file_name f))
         then [''Document has a potentially suspicious filename''] else [])"
  let ?sc = "0.95 - (if file_size f < 10000 then 0.2 else 0)
             - (if readFileHeader f 5 \<noteq> ''%PDF-'' then 0.5 else 0)
             - (if file_type f \<noteq> ''application/pdf'' then 0.3 else 0)
             - (if hasSuspiciousName (toLowerCase (file_name f)) then 0.2 else (0::real))"
  have eq: "pdfChecks b f = pdfContentAnalysis b f (readFileHeader f 5 = ''%PDF-'') (?md, ?an, ?sc)"
    by (rule pdfChecks_unfold)
  have st: "map_of ?md ''Status'' = None"
    by simp
  have base: "scored 0.95 (?an, ?sc)"
    by (simp add: scored_def penalty_simps)
  show ?thesis
  proof (cases "readFileHeader f 5 = ''%PDF-''")
    case False
    with base show ?thesis
      unfolding eq by (simp add: pdfContentAnalysis_def)
  next
    case True
    from pdfContentAnalysis_cases [OF st, of b f ?an ?sc] True base
      scored_metadataPatternCheck [OF base]
    show ?thesis
      unfolding eq by auto
  qed
qed

lemma clampScore_range: "0.1 \<le> clampScore s \<and> clampScore s \<le> 1"
  by (simp add: clampScore_def)

text \<open>
  C3, as the code has it. The confidence score of a word-processor document starts at
  0.9 and the score of the PDF analysis at 0.95; before the clamp, each is the start value
  less the penalty of every recorded anomaly, and each penalty is one of the fixed
  amounts 0.2, 0.3, 0.4 and 0.5.
\<close>

theorem confidence_score_penalties:
  "snd (officeChecks f) = 0.9 - sum_list (map penalty (fst (officeChecks f))) \<and>
   (\<forall>a \<in> set (fst (officeChecks f)). penalty a \<in> {0.2, 0.3, 0.4, 0.5}) \<and>
   snd (snd (pdfChecks b g)) = 0.95 - sum_list (map penalty (fst (snd (pdfChecks b g)))) \<and>
   (\<forall>a \<in> set (fst (snd (pdfChecks b g))). penalty a \<in> {0.2, 0.3, 0.4, 0.5})"
  using pdf_scored [of b g] office_scored [of f]
  by (simp add: scored_def list_all_iff)

theorem confidence_score_penalties_witness:
  "snd (officeChecks report_doc) =
     0.9 - sum_list (map penalty [''File extension doesn't match the actual file type'']) \<and>
   penalty ''File extension doesn't match the actual file type'' \<in> {0.2, 0.3, 0.4, 0.5} \<and>
   snd (snd (pdfChecks browser0 pdf_gpt)) =
     0.95 - sum_list (map penalty [''Unusually small file size for a PDF'',
                                   ''Document creator suggests AI generation'',
                                   ''Document producer suggests AI generation'']) \<and>
   penalty ''Document creator suggests AI generation'' \<in> {0.2, 0.3, 0.4, 0.5}"
  using confidence_score_penalties [of report_doc browser0 pdf_gpt]
  by (simp add: report_doc_checks pdf_gpt_checks)

text \<open>
  The claim as the specification words it fails: a \<open>.doc\<close> name on a file of the
  \<open>.docx\<close> type triggers one flag, which subtracts 0.4; and a PDF without any anomaly has
  the score 0.95.
\<close>

theorem confidence_score_counterexample:
  "fst (officeChecks report_doc) = [''File extension doesn't match the actual file type''] \<and>
   snd (officeChecks report_doc) = 0.5 \<and>
   0.9 - snd (officeChecks report_doc) \<notin> {0.2, 0.3} \<and>
   fst (snd (pdfChecks browser0 clean_pdf)) = [] \<and>
   snd (snd (pdfChecks browser0 clean_pdf)) = 0.95"
  by (simp add: report_doc_checks clean_pdf_checks)

subsection \<open>The metadata pattern check\<close>

lemma str_includes_nonempty: "str_includes s w \<Longrightarrow> w \<noteq> [] \<Longrightarrow> s \<noteq> []"
  by (cases s) auto

lemma suggestsAI_I:
  assumes "map_of md field = Some v" and "term \<in> set terms" and "str_includes v term"
    and "[] \<notin> set terms"
  shows "suggestsAI md field terms"
proof -
  from assms have "v \<noteq> []"
    by (metis str_includes_nonempty)
  with assms show ?thesis
    by (auto simp: suggestsAI_def list_ex_iff)
qed

text \<open>
  C6, as the code has it. Take a file with the PDF header whose analysis has no
  \<open>Status\<close> entry, which is the case when reading the file and decoding its four entries
  did not throw. When its Creator entry contains one of the terms, the anomaly
  "Document creator suggests AI generation" is recorded, and likewise for the Producer
  entry; and the reported score is the clamped value of 0.95 less the penalties of the
  file checks, less 0.3 for each of the two entries that contains a term, less 0.2 when
  three or more of the four standard entries are missing.
\<close>

theorem ai_metadata_flagged:
  assumes "readFileHeader f 5 = ''%PDF-''"
    and "map_of (pdf_metadata (extractPdfMetadata b f)) ''Status'' = None"
  shows
    "(map_of (pdf_metadata (extractPdfMetadata b f)) ''Creator'' = Some v \<and>
      term \<in> set suspiciousCreators \<and> str_includes v term \<longrightarrow>
        ''Document creator suggests AI generation'' \<in> set (pdf_anomalies (extractPdfMetadata b f))) \<and>
     (map_of (pdf_metadata (extractPdfMetadata b f)) ''Producer'' = Some v' \<and>
      term' \<in> set suspiciousProducers \<and> str_includes v' term' \<longrightarrow>
        ''Document producer suggests AI generation'' \<in> set (pdf_anomalies (extractPdfMetadata b f))) \<and>
     pdf_confidenceScore (extractPdfMetadata b f) =
       max 0.1 (min 1
         (0.95 - (if file_size f < 10000 then 0.2 else 0)
               - (if file_type f \<noteq> ''application/pdf'' then 0.3 else 0)
               - (if hasSuspiciousName (toLowerCase (file_name f)) then 0.2 else 0)
               - (if suggestsAI (pdf_metadata (extractPdfMetadata b f)) ''Creator'' suspiciousCreators
                  then 0.3 else 0)
               - (if suggestsAI (pdf_metadata (extractPdfMetadata b f)) ''Producer'' suspiciousProducers
                  then 0.3 else 0)
               - (if 3 \<le> missingMetadataCount (pdf_metadata (extractPdfMetadata b f))
                  then 0.2 else 0)))"
proof -
  let ?md = "[(''File Name'', file_name f), (''File Size'', formatKB (file_size f)),
         (''File Type'', file_type f), (''Valid PDF Header'', ''Yes''),
         (''Last Modified'', lastModifiedText f)]"
  let ?an = "(if file_size f < 10000 then [''Unusually small file size for a PDF''] else []) @
        (if file_type f \<noteq> ''application/pdf'' then [''File does not have the correct PDF MIME type''] else []) @
        (if hasSuspiciousName (toLowerCase (file_name f))
         then [''Document has a potentially suspicious filename''] else [])"
  let ?sc = "0.95 - (if file_size f < 10000 then 0.2 else 0)
             - (if file_type f \<noteq> ''application/pdf'' then 0.3 else 0)
             - (if hasSuspiciousName (toLowerCase (file_name f)) then 0.2 else (0::real))"
  have eq: "pdfChecks b f = pdfContentAnalysis b f True (?md, ?an, ?sc)"
    using assms(1) by (simp add: pdfChecks_unfold)
  have st: "map_of ?md ''Status'' = None"
    by simp
  have meta: "pdf_metadata (extractPdfMetadata b f) = fst (pdfChecks b f)"
    by (simp add: extractPdfMetadata_def split: prod.splits)
  from pdfContentAnalysis_cases [OF st, of b f ?an ?sc] assms(2)
  obtain md' where run: "pdfChecks b f = (md', metadataPatternCheck md' (?an, ?sc))"
    unfolding meta eq by auto
  have res: "extractPdfMetadata b f =
      \<lparr>pdf_metadata = md', pdf_anomalies = fst (metadataPatternCheck md' (?an, ?sc)),
       pdf_confidenceScore = clampScore (snd (metadataPatternCheck md' (?an, ?sc)))\<rparr>"
    by (simp add: extractPdfMetadata_def run split: prod.splits)
  have terms: "[] \<notin> set suspiciousCreators" "[] \<notin> set suspiciousProducers"
    by (simp_all add: suspiciousCreators_def suspiciousProducers_def)
  show ?thesis
    unfolding res
    by (auto simp: metadataPatternCheck_eq clampScore_def
             dest: suggestsAI_I [OF _ _ _ terms(1)] suggestsAI_I [OF _ _ _ terms(2)])
qed

theorem ai_metadata_flagged_witness:
  "readFileHeader pdf_gpt 5 = ''%PDF-'' \<and>
   map_of (pdf_metadata (extractPdfMetadata browser0 pdf_gpt)) ''Status'' = None \<and>
   map_of (pdf_metadata (extractPdfMetadata browser0 pdf_gpt)) ''Creator'' = Some ''ChatGPT'' \<and>
   str_includes ''ChatGPT'' ''GPT'' \<and>
   map_of (pdf_metadata (extractPdfMetadata browser0 pdf_gpt)) ''Producer'' = Some ''Stable Diffusion PDF'' \<and>
   str_includes ''Stable Diffusion PDF'' ''Stable Diffusion'' \<and>
   ''Document creator suggests AI generation'' \<in> set (pdf_anomalies (extractPdfMetadata browser0 pdf_gpt)) \<and>
   ''Document producer suggests AI generation'' \<in> set (pdf_anomalies (extractPdfMetadata browser0 pdf_gpt)) \<and>
   pdf_confidenceScore (extractPdfMetadata browser0 pdf_gpt) = 0.15"
proof -
  have hdr: "readFileHeader pdf_gpt 5 = ''%PDF-''"
    by (simp add: readFileHeader_def pdf_gpt_def)
  have res: "extractPdfMetadata browser0 pdf_gpt =
      \<lparr>pdf_metadata = fst (pdfChecks browser0 pdf_gpt),
       pdf_anomalies = fst (snd (pdfChecks browser0 pdf_gpt)),
       pdf_confidenceScore = clampScore (snd (snd (pdfChecks browser0 pdf_gpt)))\<rparr>"
    by (simp add: extractPdfMetadata_def split: prod.splits)
  have st: "map_of (pdf_metadata (extractPdfMetadata browser0 pdf_gpt)) ''Status'' = None"
    by (simp add: res pdf_gpt_checks)
  show ?thesis
    using ai_metadata_flagged [OF hdr st, of "''ChatGPT''" "''GPT''" "''Stable Diffusion PDF''" "''Stable Diffusion''"]
    by (simp add: hdr res pdf_gpt_checks suspiciousCreators_def suspiciousProducers_def clampScore_def)
qed

text \<open>
  The claim as the specification words it fails on a PDF whose Producer entry is not a
  valid escape sequence: decoding it throws after the Creator entry was stored, the
  checks are skipped, and the stored Creator entry contains the term AI without an
  anomaly or a penalty for it.
\<close>

theorem ai_metadata_counterexample:
  "map_of (pdf_metadata (extractPdfMetadata browser0 pdf_ai)) ''Creator'' = Some ''AI Writer'' \<and>
   ''AI'' \<in> set suspiciousCreators \<and> str_includes ''AI Writer'' ''AI'' \<and>
   ''Document creator suggests AI generation'' \<notin> set (pdf_anomalies (extractPdfMetadata browser0 pdf_ai)) \<and>
   pdf_anomalies (extractPdfMetadata browser0 pdf_ai) = [''Unusually small file size for a PDF''] \<and>
   pdf_confidenceScore (extractPdfMetadata browser0 pdf_ai) = 0.95 - 0.2"
  by (simp add: extractPdfMetadata_def pdf_ai_checks suspiciousCreators_def clampScore_def)

subsection \<open>Suspicious words in the extracted text\<close>

lemma textAnomalies_patterns:
  "textAnomalies suspiciousTextPatterns t =
     (if matchesSuspiciousTerms t then [termsDescription] else []) @
     (if matchesDisclaimer t then [disclaimerDescription] else [])"
  by (simp add: suspiciousTextPatterns_def)

lemma penalizeTextPatterns_eq:
  "penalizeTextPatterns ps t (an, sc) =
     (an @ textAnomalies ps t, sc - 0.2 * real (length (textAnomalies ps t)))"
  by (induction ps t "(an, sc)" arbitrary: an sc rule: penalizeTextPatterns.induct)
     (auto simp: algebra_simps)

lemma matchesSuspiciousTerms_nonempty: "matchesSuspiciousTerms t \<Longrightarrow> t \<noteq> []"
  by (auto simp: matchesSuspiciousTerms_def toLowerCase_def dest: str_includes_nonempty)

lemma matchesDisclaimer_nonempty: "matchesDisclaimer t \<Longrightarrow> t \<noteq> []"
  by (auto simp: matchesDisclaimer_def toLowerCase_def)

lemmas pattern_eval =
  matchesSuspiciousTerms_def matchesDisclaimer_def disclaimerAt_def validOrOfficial_def wordEnd_def

text \<open>
  On the PDF path the extracted text is always the placeholder of \<open>extractTextFromImage\<close>,
  which matches neither pattern.
\<close>

lemma pdf_placeholder_unsuspicious:
  "\<not> matchesSuspiciousTerms ''PDF text extraction requires server-side processing.'' \<and>
   \<not> matchesDisclaimer ''PDF text extraction requires server-side processing.''"
  by (simp add: pattern_eval string_eval)

text \<open>
  C7. When the extracted text matches the pattern of the suspicious words or the
  pattern of the disclaimers, the descriptions of the matching patterns are recorded, one
  per pattern and in the order of the patterns: on the image path as the metadata entry
  \<open>Text Anomalies\<close>, and in the loop of the PDF path as anomalies, where the confidence
  score also drops by 0.2 for each matching pattern.
\<close>

theorem suspicious_text_recorded:
  assumes "matchesSuspiciousTerms t \<or> matchesDisclaimer t"
  shows
    "textAnomalies suspiciousTextPatterns t =
       (if matchesSuspiciousTerms t then [termsDescription] else []) @
       (if matchesDisclaimer t then [disclaimerDescription] else []) \<and>
     map_of (imageMetadata f \<lparr>ocr_text = t, ocr_confidence = c\<rparr>) ''Text Anomalies'' =
       Some (join '', '' (textAnomalies suspiciousTextPatterns t)) \<and>
     snd (pdfTextChecks t c (md, an, sc)) =
       (an @ textAnomalies suspiciousTextPatterns t,
        sc - 0.2 * real (length (textAnomalies suspiciousTextPatterns t)))"
proof -
  from assms have found: "textAnomalies suspiciousTextPatterns t \<noteq> []"
    by (auto simp: textAnomalies_patterns)
  from assms have nonempty: "t \<noteq> []"
    using matchesSuspiciousTerms_nonempty matchesDisclaimer_nonempty by blast
  have "map_of (imageMetadata f \<lparr>ocr_text = t, ocr_confidence = c\<rparr>) ''Text Anomalies'' =
       Some (join '', '' (textAnomalies suspiciousTextPatterns t))"
    using found by (simp add: imageMetadata_def Let_def update_conv')
  moreover have "snd (pdfTextChecks t c (md, an, sc)) =
       (an @ textAnomalies suspiciousTextPatterns t,
        sc - 0.2 * real (length (textAnomalies suspiciousTextPatterns t)))"
    using nonempty by (simp add: pdfTextChecks_def penalizeTextPatterns_eq)
  ultimately show ?thesis
    by (simp add: textAnomalies_patterns)
qed

theorem suspicious_text_recorded_witness:
  "matchesSuspiciousTerms ''SPECIMEN - not valid'' \<and> matchesDisclaimer ''SPECIMEN - not valid'' \<and>
   textAnomalies suspiciousTextPatterns ''SPECIMEN - not valid'' =
     [termsDescription, disclaimerDescription] \<and>
   map_of (imageMetadata photo0 \<lparr>ocr_text = ''SPECIMEN - not valid'', ocr_confidence = 0.9\<rparr>)
       ''Text Anomalies'' =
     Some (termsDescription @ '', '' @ disclaimerDescription) \<and>
   snd (pdfTextChecks ''SPECIMEN - not valid'' 0.9 ([], [''Unusually small file size for a PDF''], 0.75)) =
     ([''Unusually small file size for a PDF'', termsDescription, disclaimerDescription], 0.35)"
proof -
  have m: "matchesSuspiciousTerms ''SPECIMEN - not valid''" "matchesDisclaimer ''SPECIMEN - not valid''"
    by (simp_all add: pattern_eval string_eval)
  show ?thesis
    using suspicious_text_recorded
            [of "''SPECIMEN - not valid''" photo0 "0.9" "[]" "[''Unusually small file size for a PDF'']" "0.75"]
    by (simp add: m)
qed

subsection \<open>The clamp of the uploader's own scores\<close>

lemma documentVerification_score:
  "verificationDetails (documentVerification an sc md t c) = DocumentDetails d md' t' c' \<Longrightarrow>
   confidenceScore d = clampScore sc"
  by (auto simp: documentVerification_def Let_def)

lemma verifyImage_not_document:
  "verifyImage analyze b f = (calls, Some u) \<Longrightarrow> verificationDetails u \<noteq> DocumentDetails d md t c"
  by (auto simp: verifyImage_def geminiUpdate_def analysisFailed_def Let_def
           split: prod.splits promise.splits error.splits)

lemma verifyPdf_document:
  "verifyPdf analyze b f = (calls, Some u) \<Longrightarrow> verificationDetails u = DocumentDetails d md t c \<Longrightarrow>
   \<exists>sc. confidenceScore d = clampScore sc"
  by (auto simp: verifyPdf_def geminiUpdate_def Let_def
           split: prod.splits promise.splits dest: documentVerification_score)

text \<open>
  C8. The score that \<open>extractPdfMetadata\<close> reports is \<open>Math.max(0.1, Math.min(1, score))\<close>
  of the score it computed, and so is the score of every verification result that the
  uploader computes itself for a document, on the PDF path and on the path of the
  word-processor documents: each lies between 0.1 and 1.
\<close>

theorem local_scores_clamped:
  "pdf_confidenceScore (extractPdfMetadata b f) = max 0.1 (min 1 (snd (snd (pdfChecks b f)))) \<and>
   0.1 \<le> pdf_confidenceScore (extractPdfMetadata b f) \<and>
   pdf_confidenceScore (extractPdfMetadata b f) \<le> 1 \<and>
   (verifyFile analyze b f = (calls, Some u) \<and> verificationDetails u = DocumentDetails d md t c \<longrightarrow>
      (\<exists>score. confidenceScore d = max 0.1 (min 1 score)) \<and>
      0.1 \<le> confidenceScore d \<and> confidenceScore d \<le> 1)"
proof -
  have pdf: "pdf_confidenceScore (extractPdfMetadata b f) = clampScore (snd (snd (pdfChecks b f)))"
    by (simp add: extractPdfMetadata_def split: prod.splits)
  have doc: "\<exists>sc. confidenceScore d = clampScore sc"
    if "verifyFile analyze b f = (calls, Some u)" "verificationDetails u = DocumentDetails d md t c"
  proof -
    show ?thesis
    proof (cases "startsWith (file_type f) ''image/''")
      case True
      with that show ?thesis
        by (simp add: verifyFile_def verifyImage_not_document)
    next
      case image: False
      show ?thesis
      proof (cases "file_type f = ''application/pdf''")
        case True
        with image that(1) have "verifyPdf analyze b f = (calls, Some u)"
          by (simp add: verifyFile_def)
        then show ?thesis
          using that(2) by (rule verifyPdf_document)
      next
        case False
        with image that(1) have "u = verifyOfficeDocument f \<or> u = unsupportedFile f"
          by (auto simp: verifyFile_def split: if_splits)
        with that(2) show ?thesis
          by (auto simp: verifyOfficeDocument_def unsupportedFile_def split: prod.splits
                   dest: documentVerification_score)
      qed
    qed
  qed
  show ?thesis
    using pdf doc clampScore_range by (auto simp: clampScore_def)
qed

theorem local_scores_clamped_witness:
  "verifyFile (\<lambda>md. ([], Pending)) browser0 test_doc = ([], Some (verifyOfficeDocument test_doc)) \<and>
   verificationDetails (verifyOfficeDocument test_doc) =
     DocumentDetails
       \<lparr>isLikelyGenuine = False, isLikelyAiGenerated = True,
        detectedAnomalies =
          [''Unusually small file size for a document'',
           ''Document has a potentially suspicious filename'',
           ''File extension doesn't match the actual file type''],
        confidenceScore = 0.1,
        analysisExplanation =
          ''Document verification found 3 potential issues, but some critical issues were detected.''\<rparr>
       [(''File Size'', ''0.00 KB''),
        (''File Type'', ''application/vnd.openxmlformats-officedocument.wordprocessingml.document''),
        (''File Name'', ''test.doc'')]
       [] 0 \<and>
   snd (officeChecks test_doc) = 0 \<and>
   (0.1::real) \<le> 0.1 \<and> (0.1::real) \<le> 1"
proof -
  let ?d = "\<lparr>isLikelyGenuine = False, isLikelyAiGenerated = True,
        detectedAnomalies =
          [''Unusually small file size for a document'',
           ''Document has a potentially suspicious filename'',
           ''File extension doesn't match the actual file type''],
        confidenceScore = 0.1,
        analysisExplanation =
          ''Document verification found 3 potential issues, but some critical issues were detected.''\<rparr>"
  let ?md = "[(''File Size'', ''0.00 KB''),
        (''File Type'', ''application/vnd.openxmlformats-officedocument.wordprocessingml.document''),
        (''File Name'', ''test.doc'')]"
  have v: "verifyFile (\<lambda>md. ([], Pending)) browser0 test_doc = ([], Some (verifyOfficeDocument test_doc))"
    by (simp add: verifyFile_def isOfficeType_def startsWith_def test_doc_def)
  have d: "verificationDetails (verifyOfficeDocument test_doc) = DocumentDetails ?d ?md [] 0"
    by (simp add: verifyOfficeDocument_def test_doc_checks documentVerification_def clampScore_def
          criticalAnomaly_def)
       (simp add: test_doc_def file_size_def string_eval)
  show ?thesis
    using local_scores_clamped
            [of browser0 test_doc "\<lambda>md. ([], Pending)" "[]" "verifyOfficeDocument test_doc" ?d ?md "[]" 0]
          v d
    by (simp add: test_doc_checks)
qed

section \<open>Properties of the verification route\<close>

subsection \<open>The pattern on the reply\<close>

lemma jsonMatch_Some_D:
  assumes "jsonMatch reply = Some m"
  shows "\<exists>pre mid post. reply = pre @ CHR ''{'' # mid @ CHR ''}'' # post \<and>
           CHR ''{'' \<notin> set pre \<and> CHR ''}'' \<notin> set post \<and> m = CHR ''{'' # mid @ [CHR ''}'']"
proof -
  let ?P = "\<lambda>c. c \<noteq> CHR ''{''" and ?Q = "\<lambda>c. c \<noteq> CHR ''}''"
  from assms obtain c rest where d: "dropWhile ?P reply = c # rest"
    by (cases "dropWhile ?P reply") (auto simp: jsonMatch_def)
  then have t: "reply = takeWhile ?P reply @ c # rest" and c: "c = CHR ''{''"
    by (auto simp: dropWhile_eq_Cons_conv)
  obtain y ys where r: "dropWhile ?Q (rev rest) = y # ys" and m: "m = c # rev (y # ys)"
    using assms d
    by (cases "dropWhile ?Q (rev rest)") (auto simp: jsonMatch_def Let_def split: if_splits)
  then have rr: "rev rest = takeWhile ?Q (rev rest) @ y # ys" and y: "y = CHR ''}''"
    by (auto simp: dropWhile_eq_Cons_conv)
  from rr have "rev (rev rest) = rev (takeWhile ?Q (rev rest) @ y # ys)"
    by simp
  then have rest: "rest = rev ys @ y # rev (takeWhile ?Q (rev rest))"
    by simp
  have post: "CHR ''}'' \<notin> set (rev (takeWhile ?Q (rev rest)))"
    by (auto dest: set_takeWhileD)
  have pre: "CHR ''{'' \<notin> set (takeWhile ?P reply)"
    by (auto dest: set_takeWhileD)
  from t c rest y
  have "reply = takeWhile ?P reply @ CHR ''{'' # rev ys @ CHR ''}'' # rev (takeWhile ?Q (rev rest))"
    by simp
  with post pre m c y show ?thesis
    by (intro exI [of _ "takeWhile ?P reply"] exI [of _ "rev ys"]
              exI [of _ "rev (takeWhile ?Q (rev rest))"]) simp
qed

lemma jsonMatch_Some_I:
  assumes "CHR ''{'' \<notin> set pre" "CHR ''}'' \<notin> set post"
  shows "jsonMatch (pre @ CHR ''{'' # mid @ CHR ''}'' # post) = Some (CHR ''{'' # mid @ [CHR ''}''])"
proof -
  let ?P = "\<lambda>c. c \<noteq> CHR ''{''" and ?Q = "\<lambda>c. c \<noteq> CHR ''}''"
  have a: "dropWhile ?P (pre @ CHR ''{'' # mid @ CHR ''}'' # post) = CHR ''{'' # mid @ CHR ''}'' # post"
    using assms(1) by (induction pre) auto
  have b: "dropWhile ?Q (rev post @ CHR ''}'' # rev mid) = CHR ''}'' # rev mid"
    using assms(2) by (induction post rule: rev_induct) auto
  show ?thesis
    by (simp add: jsonMatch_def a b)
qed

text \<open>The pattern finds no match exactly in a text without a brace pair in this order.\<close>

lemma jsonMatch_None_iff:
  "jsonMatch reply = None \<longleftrightarrow> \<not> (\<exists>pre mid post. reply = pre @ CHR ''{'' # mid @ CHR ''}'' # post)"
proof
  assume n: "jsonMatch reply = None"
  show "\<not> (\<exists>pre mid post. reply = pre @ CHR ''{'' # mid @ CHR ''}'' # post)"
  proof
    assume "\<exists>pre mid post. reply = pre @ CHR ''{'' # mid @ CHR ''}'' # post"
    then obtain pre mid post where t: "reply = pre @ CHR ''{'' # mid @ CHR ''}'' # post"
      by blast
    then have "CHR ''{'' \<in> set reply" by simp
    then obtain ys zs where f: "reply = ys @ CHR ''{'' # zs" "CHR ''{'' \<notin> set ys"
      by (meson split_list_first)
    from t f(1) have "ys @ CHR ''{'' # zs = pre @ CHR ''{'' # mid @ CHR ''}'' # post"
      by simp
    with f(2) have "CHR ''}'' \<in> set zs"
      by (auto simp: append_eq_append_conv2 append_eq_Cons_conv Cons_eq_append_conv)
    then obtain us vs where l: "zs = us @ CHR ''}'' # vs" "CHR ''}'' \<notin> set vs"
      by (meson split_list_last)
    from f l jsonMatch_Some_I [of ys vs us] n show False
      by simp
  qed
next
  assume "\<not> (\<exists>pre mid post. reply = pre @ CHR ''{'' # mid @ CHR ''}'' # post)"
  then show "jsonMatch reply = None"
    using jsonMatch_Some_D by (cases "jsonMatch reply") blast+
qed

text \<open>
  C5. When the hosted model replies with a text, the result of the analysis is
  \<open>JSON.parse\<close> of what the pattern matches in it: the part from the first opening brace
  to the last closing brace after it. A reply without such a part, and a match that
  \<open>JSON.parse\<close> rejects, raise an error in the \<open>try\<close> block, and \<open>analyzeWithGemini\<close>
  returns the mock result of its \<open>catch\<close> instead.
\<close>

theorem reply_parsed_by_pattern:
  assumes "genAI_defined srv" and "\<not> getGenerativeModelThrows srv"
    and "generateContent srv (createOptimizedPrompt imageType extractedText feats md) = Reply reply"
  shows
    "(jsonMatch reply = None \<longleftrightarrow>
        \<not> (\<exists>pre mid post. reply = pre @ CHR ''{'' # mid @ CHR ''}'' # post)) \<and>
     (jsonMatch reply = Some m \<longrightarrow>
        (\<exists>pre mid post. reply = pre @ CHR ''{'' # mid @ CHR ''}'' # post \<and>
           CHR ''{'' \<notin> set pre \<and> CHR ''}'' \<notin> set post \<and> m = CHR ''{'' # mid @ [CHR ''}''])) \<and>
     (jsonMatch reply = None \<longrightarrow>
        analyzeWithGemini_try srv imageType extractedText (Some feats) (Some md) =
          ([BuildPrompt, CallLLM, MatchReply], Inl (Error ''Failed to parse Gemini API response'')) \<and>
        analyzeWithGemini_route srv imageType extractedText (Some feats) (Some md) =
          ([BuildPrompt, CallLLM, MatchReply],
           mockFallback (Error ''Failed to parse Gemini API response''))) \<and>
     (jsonMatch reply = Some m \<and> JSON_parse srv m = None \<longrightarrow>
        analyzeWithGemini_try srv imageType extractedText (Some feats) (Some md) =
          ([BuildPrompt, CallLLM, MatchReply], Inl (Error ''Failed to parse Gemini API JSON response'')) \<and>
        analyzeWithGemini_route srv imageType extractedText (Some feats) (Some md) =
          ([BuildPrompt, CallLLM, MatchReply],
           mockFallback (Error ''Failed to parse Gemini API JSON response''))) \<and>
     (jsonMatch reply = Some m \<and> JSON_parse srv m = Some j \<longrightarrow>
        analyzeWithGemini_route srv imageType extractedText (Some feats) (Some md) =
          ([BuildPrompt, CallLLM, MatchReply], j))"
proof -
  have run: "analyzeWithGemini_try srv imageType extractedText (Some feats) (Some md) =
      ([BuildPrompt, CallLLM, MatchReply],
       case jsonMatch reply of
         None \<Rightarrow> Inl (Error ''Failed to parse Gemini API response'')
       | Some matched \<Rightarrow>
           (case JSON_parse srv matched of
              None \<Rightarrow> Inl (Error ''Failed to parse Gemini API JSON response'')
            | Some analysisResult \<Rightarrow> Inr analysisResult))"
    using assms by (simp add: analyzeWithGemini_try_def split: option.splits)
  have shape: "jsonMatch reply = Some m \<longrightarrow>
        (\<exists>pre mid post. reply = pre @ CHR ''{'' # mid @ CHR ''}'' # post \<and>
           CHR ''{'' \<notin> set pre \<and> CHR ''}'' \<notin> set post \<and> m = CHR ''{'' # mid @ [CHR ''}''])"
    using jsonMatch_Some_D [of reply m] by blast
  have results:
    "jsonMatch reply = None \<longrightarrow>
        analyzeWithGemini_try srv imageType extractedText (Some feats) (Some md) =
          ([BuildPrompt, CallLLM, MatchReply], Inl (Error ''Failed to parse Gemini API response'')) \<and>
        analyzeWithGemini_route srv imageType extractedText (Some feats) (Some md) =
          ([BuildPrompt, CallLLM, MatchReply],
           mockFallback (Error ''Failed to parse Gemini API response''))"
    "jsonMatch reply = Some m \<and> JSON_parse srv m = None \<longrightarrow>
        analyzeWithGemini_try srv imageType extractedText (Some feats) (Some md) =
          ([BuildPrompt, CallLLM, MatchReply], Inl (Error ''Failed to parse Gemini API JSON response'')) \<and>
        analyzeWithGemini_route srv imageType extractedText (Some feats) (Some md) =
          ([BuildPrompt, CallLLM, MatchReply],
           mockFallback (Error ''Failed to parse Gemini API JSON response''))"
    "jsonMatch reply = Some m \<and> JSON_parse srv m = Some j \<longrightarrow>
        analyzeWithGemini_route srv imageType extractedText (Some feats) (Some md) =
          ([BuildPrompt, CallLLM, MatchReply], j)"
    by (simp_all add: analyzeWithGemini_route_def run)
  from jsonMatch_None_iff [of reply] shape results show ?thesis
    by blast
qed

lemma server0_defined: "genAI_defined server0 \<and> \<not> getGenerativeModelThrows server0"
  by (simp add: genAI_defined_def server0_def)

lemma jsonMatch_examples:
  "jsonMatch ''The document looks fine. {}'' = Some ''{}''"
  "jsonMatch ''I cannot judge this document.'' = None"
  "jsonMatch ''{genuine}'' = Some ''{genuine}''"
  by (simp_all add: jsonMatch_def)

lemma mockFallback_parse:
  "mockFallback (Error ''Failed to parse Gemini API response'') =
     JObj [(''isLikelyGenuine'', JBool True), (''isLikelyAiGenerated'', JBool False),
           (''detectedAnomalies'', JArr []), (''confidenceScore'', JNum 0.9),
           (''analysisExplanation'',
              JStr ''This is a mock verification result. Reason: API connection issue'')]"
  "mockFallback (Error ''Failed to parse Gemini API JSON response'') =
     JObj [(''isLikelyGenuine'', JBool True), (''isLikelyAiGenerated'', JBool False),
           (''detectedAnomalies'', JArr []), (''confidenceScore'', JNum 0.9),
           (''analysisExplanation'',
              JStr ''This is a mock verification result. Reason: API connection issue'')]"
  by (simp_all add: mockFallback_def userFriendlyError_def)

theorem reply_parsed_by_pattern_witness:
  "analyzeWithGemini_route server0 ''image/png'' ''text'' (Some []) (Some []) =
     ([BuildPrompt, CallLLM, MatchReply], JObj []) \<and>
   analyzeWithGemini_route (server0\<lparr>generateContent := \<lambda>p. Reply ''I cannot judge this document.''\<rparr>)
       ''image/png'' ''text'' (Some []) (Some []) =
     ([BuildPrompt, CallLLM, MatchReply],
      JObj [(''isLikelyGenuine'', JBool True), (''isLikelyAiGenerated'', JBool False),
            (''detectedAnomalies'', JArr []), (''confidenceScore'', JNum 0.9),
            (''analysisExplanation'',
               JStr ''This is a mock verification result. Reason: API connection issue'')]) \<and>
   analyzeWithGemini_route (server0\<lparr>generateContent := \<lambda>p. Reply ''{genuine}''\<rparr>)
       ''image/png'' ''text'' (Some []) (Some []) =
     ([BuildPrompt, CallLLM, MatchReply],
      JObj [(''isLikelyGenuine'', JBool True), (''isLikelyAiGenerated'', JBool False),
            (''detectedAnomalies'', JArr []), (''confidenceScore'', JNum 0.9),
            (''analysisExplanation'',
               JStr ''This is a mock verification result. Reason: API connection issue'')])"
proof -
  let ?none = "server0\<lparr>generateContent := \<lambda>p. Reply ''I cannot judge this document.''\<rparr>"
  let ?bad = "server0\<lparr>generateContent := \<lambda>p. Reply ''{genuine}''\<rparr>"
  have d: "genAI_defined ?none" "\<not> getGenerativeModelThrows ?none"
    "genAI_defined ?bad" "\<not> getGenerativeModelThrows ?bad"
    by (simp_all add: genAI_defined_def server0_def)
  have g: "generateContent server0 (createOptimizedPrompt ''image/png'' ''text'' [] []) =
             Reply ''The document looks fine. {}''"
    "generateContent ?none (createOptimizedPrompt ''image/png'' ''text'' [] []) =
             Reply ''I cannot judge this document.''"
    "generateContent ?bad (createOptimizedPrompt ''image/png'' ''text'' [] []) = Reply ''{genuine}''"
    by (simp_all add: server0_def)
  have p: "JSON_parse server0 ''{}'' = Some (JObj [])" "JSON_parse server0 ''{genuine}'' = None"
    by (simp_all add: server0_def)
  show ?thesis
    using reply_parsed_by_pattern
            [OF server0_defined [THEN conjunct1] server0_defined [THEN conjunct2] g(1),
             of "''{}''" "JObj []"]
          reply_parsed_by_pattern [OF d(1) d(2) g(2), of "''{}''" "JObj []"]
          reply_parsed_by_pattern [OF d(3) d(4) g(3), of "''{genuine}''" "JObj []"]
    by (simp add: jsonMatch_examples mockFallback_parse p)
qed

subsection \<open>Mock responses\<close>


lemma mockAnalysis_isMock: "mockAnalysis rnd reason md = Inr v \<Longrightarrow> isMockVerification v"
  by (auto simp: mockAnalysis_def isMockVerification_def Let_def split: if_splits sum.splits)

lemma mockAnalysis_Some: "\<exists>v. mockAnalysis rnd reason (Some md) = Inr v"
  by (simp add: mockAnalysis_def Object_keys_def Let_def)

lemma provideMockResponse_Inr:
  "provideMockResponse rnd clock st n reason md = Inr r \<Longrightarrow>
     http_status r = 200 \<and> status (body r) = ''success'' \<and>
     mockImplementation (body r) = Some True \<and>
     rateLimit (body r) =
       Some \<lparr>callsInLastMinute = n, resetInMs = 60000 - (clock - lastResetTime st)\<rparr> \<and>
     isMockVerification (verification (body r))"
  by (auto simp: provideMockResponse_def RATE_LIMIT_RESET_INTERVAL_def split: sum.splits
           dest: mockAnalysis_isMock)

text \<open>With a metadata object, \<open>provideMockResponse\<close> does not throw.\<close>

lemma provideMockResponse_Some:
  "\<exists>r. provideMockResponse rnd clock st n reason (Some md) = Inr r"
  using mockAnalysis_Some [of rnd reason md]
  by (auto simp: provideMockResponse_def)


subsection \<open>Failing analyses\<close>




subsection \<open>The handler\<close>


lemma POST_pass:
  "POST_try srv now clock req (rateLimitTick now st0) = (calls, Inr r) \<Longrightarrow>
   POST srv now clock req st0 = (calls, Resolved r, rateLimitTick now st0)"
  by (simp add: POST_def)

text \<open>The \<open>catch\<close> of the handler answers every exception with a mock response.\<close>

lemma POST_catch:
  assumes "POST_try srv now clock req (rateLimitTick now st0) = (calls, Inl e)"
  shows "\<exists>r. POST srv now clock req st0 = (calls, Resolved r, rateLimitTick now st0) \<and>
     http_status r = 200 \<and> status (body r) = ''success'' \<and>
     mockImplementation (body r) = Some True \<and>
     rateLimit (body r) =
       Some \<lparr>callsInLastMinute = apiCallsInLastMinute (rateLimitTick now st0),
             resetInMs = 60000 - (clock - lastResetTime (rateLimitTick now st0))\<rparr> \<and>
     isMockVerification (verification (body r))"
proof -
  obtain r where m: "provideMockResponse (random srv 1) clock (rateLimitTick now st0)
        (apiCallsInLastMinute (rateLimitTick now st0)) (errorMessageOr e ''Unknown error'') (Some []) = Inr r"
    using provideMockResponse_Some by blast
  with assms provideMockResponse_Inr [OF m] show ?thesis
    by (simp add: POST_def)
qed



text \<open>Above the limit the \<open>try\<close> block calls no library.\<close>

lemma POST_try_limited:
  assumes "apiCallsInLastMinute st > 10" and "POST_try srv now clock req st = (calls, res)"
  shows "calls = []"
    and "res = Inr r \<Longrightarrow>
         mockImplementation (body r) = Some True \<and>
         (r = noImageResponse \<and> GEMINI_API_KEY srv \<noteq> [] \<and>
            (\<exists>formData. req = Inr formData \<and> imageMissing (form_image formData)) \<or>
          rateLimit (body r) =
            Some \<lparr>callsInLastMinute = apiCallsInLastMinute st,
                  resetInMs = 60000 - (clock - lastResetTime st)\<rparr> \<and>
          isMockVerification (verification (body r)))"
  using assms
  by (auto simp: POST_try_def Let_def noImageResponse_def split: if_splits prod.splits sum.splits
           dest: provideMockResponse_Inr)



lemma rateLimitTick_state10: "rateLimitTick 1000 state10 = \<lparr>apiCallsInLastMinute = 11, lastResetTime = 0\<rparr>"
  by (simp add: rateLimitTick_def state10_def RATE_LIMIT_RESET_INTERVAL_def)

lemmas route_eval =
  POST_def POST_try_def imageMissing_def parseField_def optimizedPdf_def
  analyzeWithGemini_route_def analyzeWithGemini_try_def genAI_defined_def
  RATE_LIMIT_RESET_INTERVAL_def extractTextFromImage_route_def



subsection \<open>The rate limit\<close>

lemma POST_try_noimage:
  "GEMINI_API_KEY srv \<noteq> [] \<Longrightarrow> imageMissing (form_image formData) \<Longrightarrow>
   POST_try srv now clock (Inr formData) st = ([], Inr noImageResponse)"
  by (simp add: POST_try_def)

text \<open>
  C2, as the code has it. The counter restarts at the first request that comes more
  than 60000 ms after the last reset, and counts every request. When it exceeds 10, the
  handler does not call the hosted model and its response is marked
  \<open>mockImplementation: true\<close>. When the request has an image entry (or the key is missing,
  or the form cannot be read) the response is a mock verification that carries the
  counter and the time left until the reset. A request without an image entry gets the
  fixed "No image provided" response, which carries neither.
\<close>

theorem rate_limit_mock:
  "apiCallsInLastMinute (rateLimitTick now st0) =
     (if now - lastResetTime st0 > 60000 then 1 else apiCallsInLastMinute st0 + 1) \<and>
   lastResetTime (rateLimitTick now st0) =
     (if now - lastResetTime st0 > 60000 then now else lastResetTime st0) \<and>
   (apiCallsInLastMinute (rateLimitTick now st0) > 10 \<longrightarrow>
      (\<exists>calls response.
         POST srv now clock req st0 = (calls, Resolved response, rateLimitTick now st0) \<and>
         CallLLM \<notin> set calls \<and> mockImplementation (body response) = Some True \<and>
         (GEMINI_API_KEY srv = [] \<or> (\<exists>e. req = Inl e) \<or>
          (\<exists>formData. req = Inr formData \<and> \<not> imageMissing (form_image formData)) \<longrightarrow>
            isMockVerification (verification (body response)) \<and>
            rateLimit (body response) =
              Some \<lparr>callsInLastMinute = apiCallsInLastMinute (rateLimitTick now st0),
                    resetInMs = RATE_LIMIT_RESET_INTERVAL - (clock - lastResetTime (rateLimitTick now st0))\<rparr>) \<and>
         (GEMINI_API_KEY srv \<noteq> [] \<and> (\<exists>formData. req = Inr formData \<and> imageMissing (form_image formData)) \<longrightarrow>
            response = noImageResponse)))"
proof (intro conjI impI)
  show "apiCallsInLastMinute (rateLimitTick now st0) =
     (if now - lastResetTime st0 > 60000 then 1 else apiCallsInLastMinute st0 + 1)"
    by (simp add: rateLimitTick_def RATE_LIMIT_RESET_INTERVAL_def)
  show "lastResetTime (rateLimitTick now st0) =
     (if now - lastResetTime st0 > 60000 then now else lastResetTime st0)"
    by (simp add: rateLimitTick_def RATE_LIMIT_RESET_INTERVAL_def)
next
  let ?st = "rateLimitTick now st0"
  assume limit: "10 < apiCallsInLastMinute ?st"
  obtain calls res where t: "POST_try srv now clock req ?st = (calls, res)"
    by (cases "POST_try srv now clock req ?st")
  from POST_try_limited(1) [OF limit t] have calls: "calls = []" .
  have noimage: "res = Inr noImageResponse"
    if "GEMINI_API_KEY srv \<noteq> [] \<and> (\<exists>formData. req = Inr formData \<and> imageMissing (form_image formData))"
    using that t by (auto simp: POST_try_noimage)
  show "\<exists>calls response.
         POST srv now clock req st0 = (calls, Resolved response, ?st) \<and>
         CallLLM \<notin> set calls \<and> mockImplementation (body response) = Some True \<and>
         (GEMINI_API_KEY srv = [] \<or> (\<exists>e. req = Inl e) \<or>
          (\<exists>formData. req = Inr formData \<and> \<not> imageMissing (form_image formData)) \<longrightarrow>
            isMockVerification (verification (body response)) \<and>
            rateLimit (body response) =
              Some \<lparr>callsInLastMinute = apiCallsInLastMinute ?st,
                    resetInMs = RATE_LIMIT_RESET_INTERVAL - (clock - lastResetTime ?st)\<rparr>) \<and>
         (GEMINI_API_KEY srv \<noteq> [] \<and> (\<exists>formData. req = Inr formData \<and> imageMissing (form_image formData)) \<longrightarrow>
            response = noImageResponse)"
  proof (cases res)
    case (Inl e)
    with t calls POST_catch [of srv now clock req st0 calls e] noimage show ?thesis
      by (auto simp: RATE_LIMIT_RESET_INTERVAL_def)
  next
    case (Inr r)
    from t Inr have p: "POST srv now clock req st0 = (calls, Resolved r, ?st)"
      by (simp add: POST_pass)
    from POST_try_limited(2) [OF limit t Inr] noimage Inr calls p show ?thesis
      by (auto simp: RATE_LIMIT_RESET_INTERVAL_def)
  qed
qed

text \<open>The eleventh request of a minute, with a picture.\<close>

lemma POST_limited:
  "POST server0 1000 1001 (Inr form_photo) state10 =
     ([],
      Resolved
        \<lparr>http_status = 200,
         body = \<lparr>status = ''success'',
                 verification =
                   JObj [(''isLikelyGenuine'', JBool True), (''isLikelyAiGenerated'', JBool False),
                         (''detectedAnomalies'', JArr []), (''confidenceScore'', JNum 0.925),
                         (''analysisExplanation'',
                            JStr ''This is a mock verification result. Reason: API rate limit reached. Based on available metadata, no suspicious elements were detected.''),
                         (''moderationStatus'', JStr ''safe'')],
                 mockImplementation = Some True, mockReason = Some ''Rate limit exceeded'',
                 rateLimit = Some \<lparr>callsInLastMinute = 11, resetInMs = 58999\<rparr>,
                 error_flag = None, message = None\<rparr>\<rparr>,
      \<lparr>apiCallsInLastMinute = 11, lastResetTime = 0\<rparr>)"
  by (simp add: rateLimitTick_state10 route_eval server0_def form_photo_def provideMockResponse_def
        mockAnalysis_def Object_keys_def userFriendlyReason_def)

theorem rate_limit_mock_witness:
  "apiCallsInLastMinute (rateLimitTick 1000 state10) = 11 \<and>
   \<not> imageMissing (form_image form_photo) \<and>
   POST server0 1000 1001 (Inr form_photo) state10 =
     ([],
      Resolved
        \<lparr>http_status = 200,
         body = \<lparr>status = ''success'',
                 verification =
                   JObj [(''isLikelyGenuine'', JBool True), (''isLikelyAiGenerated'', JBool False),
                         (''detectedAnomalies'', JArr []), (''confidenceScore'', JNum 0.925),
                         (''analysisExplanation'',
                            JStr ''This is a mock verification result. Reason: API rate limit reached. Based on available metadata, no suspicious elements were detected.''),
                         (''moderationStatus'', JStr ''safe'')],
                 mockImplementation = Some True, mockReason = Some ''Rate limit exceeded'',
                 rateLimit = Some \<lparr>callsInLastMinute = 11, resetInMs = 58999\<rparr>,
                 error_flag = None, message = None\<rparr>\<rparr>,
      \<lparr>apiCallsInLastMinute = 11, lastResetTime = 0\<rparr>) \<and>
   isMockVerification
     (JObj [(''isLikelyGenuine'', JBool True), (''isLikelyAiGenerated'', JBool False),
            (''detectedAnomalies'', JArr []), (''confidenceScore'', JNum 0.925),
            (''analysisExplanation'',
               JStr ''This is a mock verification result. Reason: API rate limit reached. Based on available metadata, no suspicious elements were detected.''),
            (''moderationStatus'', JStr ''safe'')])"
proof -
  have i: "\<not> imageMissing (form_image form_photo)"
    by (simp add: imageMissing_def form_photo_def)
  show ?thesis
    using rate_limit_mock [of 1000 state10 server0 1001 "Inr form_photo"]
    by (simp add: i POST_limited rateLimitTick_state10)
qed

text \<open>
  The claim as the specification words it fails for the eleventh request of a minute
  when it has no image entry: the response carries no counter and no reset time.
\<close>

theorem rate_limit_counterexample:
  "apiCallsInLastMinute (rateLimitTick 1000 state10) = 11 \<and>
   POST server0 1000 1001 (Inr form_empty) state10 =
     ([], Resolved noImageResponse, \<lparr>apiCallsInLastMinute = 11, lastResetTime = 0\<rparr>) \<and>
   mockImplementation (body noImageResponse) = Some True \<and>
   rateLimit (body noImageResponse) = None"
  by (simp add: rateLimitTick_state10 POST_def POST_try_def imageMissing_def server0_def
        form_empty_def noImageResponse_def)

section \<open>Properties of the admin routes\<close>

lemma authorize_Inl_401:
  "authHeader = None \<or> (\<exists>h. authHeader = Some h \<and> \<not> startsWith h ''Bearer '') \<Longrightarrow>
   authorize fb docs authHeader = Inl \<lparr>admin_status = 401, admin_body = ErrorBody ''Unauthorized''\<rparr>"
  by (auto simp: authorize_def)

lemma authorize_Inl_403:
  "authHeader = Some h \<Longrightarrow> startsWith h ''Bearer '' \<Longrightarrow>
   verifyIdToken fb (bearerToken h) = Some userId \<Longrightarrow> \<not> hasAdminFlag docs userId \<Longrightarrow>
   authorize fb docs authHeader = Inl \<lparr>admin_status = 403, admin_body = ErrorBody ''Forbidden''\<rparr>"
  by (auto simp: authorize_def isAdmin_def startsWith_def)

lemma authorize_Inr:
  "authorize fb docs authHeader = Inr userId \<Longrightarrow> authorized fb docs authHeader"
  by (auto simp: authorize_def authorized_def isAdmin_def split: option.splits if_splits)

lemma authorize_Inl_status:
  "authorize fb docs authHeader = Inl response \<Longrightarrow> admin_status response \<in> {401, 403, 500}"
  by (auto simp: authorize_def internalError_def split: option.splits if_splits)

lemma authorize_Inl_body:
  "authorize fb docs authHeader = Inl response \<Longrightarrow> \<exists>m. admin_body response = ErrorBody m"
  by (auto simp: authorize_def internalError_def split: option.splits if_splits)

lemma authorized_Inr:
  "authorized fb docs authHeader \<Longrightarrow> \<not> docReadThrows fb \<Longrightarrow>
   \<exists>userId. authorize fb docs authHeader = Inr userId"
  by (auto simp: authorize_def authorized_def isAdmin_def startsWith_def split: option.splits)

lemma mergeFields_isAdmin:
  "map_of (mergeFields d [(''isAdmin'', JBool True), (''updatedAt'', a), (''updatedBy'', b)]) ''isAdmin'' =
     Some (JBool True)"
  by (simp add: mergeFields_def update_conv')

text \<open>
  C9. Both handlers answer 401 when the authorization header is missing or does not
  start with \<open>Bearer\<close> and a space, and 403 when the token verifies and the document of
  its user does not have \<open>isAdmin === true\<close>. Users are listed, and a document is
  written, only for a request that passes both checks. For such a request whose checks
  and body can be read, make-admin answers 400 when the body has no truthy
  \<open>targetUserId\<close>, 404 when the target is not a user, and otherwise 200 with the target's
  document marked \<open>isAdmin: true\<close>.
\<close>

theorem admin_routes_guarded:
  "(authHeader = None \<or> (\<exists>h. authHeader = Some h \<and> \<not> startsWith h ''Bearer '') \<longrightarrow>
      admin_status (snd (GET_users fb docs authHeader)) = 401 \<and>
      admin_status (fst (snd (POST_make_admin fb docs authHeader requestBody))) = 401) \<and>
   (authHeader = Some h \<and> startsWith h ''Bearer '' \<and>
    verifyIdToken fb (bearerToken h) = Some userId \<and> \<not> hasAdminFlag docs userId \<longrightarrow>
      admin_status (snd (GET_users fb docs authHeader)) = 403 \<and>
      admin_status (fst (snd (POST_make_admin fb docs authHeader requestBody))) = 403) \<and>
   (fst (GET_users fb docs authHeader) \<noteq> [] \<or>
    (\<exists>users. admin_body (snd (GET_users fb docs authHeader)) = UsersBody users) \<longrightarrow>
      authorized fb docs authHeader) \<and>
   (fst (POST_make_admin fb docs authHeader requestBody) \<noteq> [] \<or>
    snd (snd (POST_make_admin fb docs authHeader requestBody)) \<noteq> docs \<longrightarrow>
      authorized fb docs authHeader) \<and>
   (authorized fb docs authHeader \<and> \<not> docReadThrows fb \<and> requestBody = Some requestJson \<and>
    requestJson \<noteq> JNull \<and> \<not> truthy (obj_get ''targetUserId'' requestJson) \<longrightarrow>
      admin_status (fst (snd (POST_make_admin fb docs authHeader requestBody))) = 400) \<and>
   (authorized fb docs authHeader \<and> \<not> docReadThrows fb \<and> requestBody = Some requestJson \<and>
    obj_get ''targetUserId'' requestJson = Some (JStr target) \<and> target \<noteq> [] \<and>
    target \<notin> set (authUserIds fb) \<longrightarrow>
      admin_status (fst (snd (POST_make_admin fb docs authHeader requestBody))) = 404) \<and>
   (authorized fb docs authHeader \<and> \<not> docReadThrows fb \<and> requestBody = Some requestJson \<and>
    obj_get ''targetUserId'' requestJson = Some (JStr target) \<and> target \<noteq> [] \<and>
    target \<in> set (authUserIds fb) \<and> \<not> docWriteThrows fb \<longrightarrow>
      fst (POST_make_admin fb docs authHeader requestBody) = [GrantAdmin target] \<and>
      admin_status (fst (snd (POST_make_admin fb docs authHeader requestBody))) = 200 \<and>
      hasAdminFlag (snd (snd (POST_make_admin fb docs authHeader requestBody))) target)"
proof (intro conjI impI)
  assume "authHeader = None \<or> (\<exists>h. authHeader = Some h \<and> \<not> startsWith h ''Bearer '')"
  from authorize_Inl_401 [OF this, of fb docs]
  show "admin_status (snd (GET_users fb docs authHeader)) = 401"
    and "admin_status (fst (snd (POST_make_admin fb docs authHeader requestBody))) = 401"
    by (simp_all add: GET_users_def POST_make_admin_def)
next
  assume "authHeader = Some h \<and> startsWith h ''Bearer '' \<and>
    verifyIdToken fb (bearerToken h) = Some userId \<and> \<not> hasAdminFlag docs userId"
  then have "authorize fb docs authHeader = Inl \<lparr>admin_status = 403, admin_body = ErrorBody ''Forbidden''\<rparr>"
    by (auto intro: authorize_Inl_403)
  then show "admin_status (snd (GET_users fb docs authHeader)) = 403"
    and "admin_status (fst (snd (POST_make_admin fb docs authHeader requestBody))) = 403"
    by (simp_all add: GET_users_def POST_make_admin_def)
next
  assume "fst (GET_users fb docs authHeader) \<noteq> [] \<or>
    (\<exists>users. admin_body (snd (GET_users fb docs authHeader)) = UsersBody users)"
  then show "authorized fb docs authHeader"
    by (cases "authorize fb docs authHeader")
       (auto simp: GET_users_def dest: authorize_Inr authorize_Inl_body)
next
  assume "fst (POST_make_admin fb docs authHeader requestBody) \<noteq> [] \<or>
    snd (snd (POST_make_admin fb docs authHeader requestBody)) \<noteq> docs"
  then show "authorized fb docs authHeader"
    by (cases "authorize fb docs authHeader") (auto simp: POST_make_admin_def dest: authorize_Inr)
next
  assume a: "authorized fb docs authHeader \<and> \<not> docReadThrows fb \<and> requestBody = Some requestJson \<and>
    requestJson \<noteq> JNull \<and> \<not> truthy (obj_get ''targetUserId'' requestJson)"
  then obtain admin where "authorize fb docs authHeader = Inr admin"
    using authorized_Inr by blast
  with a show "admin_status (fst (snd (POST_make_admin fb docs authHeader requestBody))) = 400"
    by (cases requestJson) (simp_all add: POST_make_admin_def)
next
  assume a: "authorized fb docs authHeader \<and> \<not> docReadThrows fb \<and> requestBody = Some requestJson \<and>
    obj_get ''targetUserId'' requestJson = Some (JStr target) \<and> target \<noteq> [] \<and>
    target \<notin> set (authUserIds fb)"
  then obtain admin where "authorize fb docs authHeader = Inr admin"
    using authorized_Inr by blast
  with a show "admin_status (fst (snd (POST_make_admin fb docs authHeader requestBody))) = 404"
    by (cases requestJson) (simp_all add: POST_make_admin_def)
next
  assume a: "authorized fb docs authHeader \<and> \<not> docReadThrows fb \<and> requestBody = Some requestJson \<and>
    obj_get ''targetUserId'' requestJson = Some (JStr target) \<and> target \<noteq> [] \<and>
    target \<in> set (authUserIds fb) \<and> \<not> docWriteThrows fb"
  then obtain admin where "authorize fb docs authHeader = Inr admin"
    using authorized_Inr by blast
  with a show "fst (POST_make_admin fb docs authHeader requestBody) = [GrantAdmin target]"
    and "admin_status (fst (snd (POST_make_admin fb docs authHeader requestBody))) = 200"
    and "hasAdminFlag (snd (snd (POST_make_admin fb docs authHeader requestBody))) target"
    by (cases requestJson;
        simp add: POST_make_admin_def hasAdminFlag_def update_conv' mergeFields_isAdmin)+
qed

lemma firebase0_tokens:
  "bearerToken ''Bearer tok-alice'' = ''tok-alice''"
  "bearerToken ''Bearer tok-bob'' = ''tok-bob''"
  "startsWith ''Bearer tok-alice'' ''Bearer ''"
  "startsWith ''Bearer tok-bob'' ''Bearer ''"
  "verifyIdToken firebase0 ''tok-alice'' = Some ''alice''"
  "verifyIdToken firebase0 ''tok-bob'' = Some ''bob''"
  "hasAdminFlag users0 ''alice''"
  "\<not> hasAdminFlag users0 ''bob''"
  by (simp_all add: bearerToken_def startsWith_def firebase0_def users0_def hasAdminFlag_def)

lemma alice_authorized: "authorized firebase0 users0 (Some ''Bearer tok-alice'')"
  by (simp add: authorized_def firebase0_tokens)

theorem admin_routes_guarded_witness:
  "admin_status (snd (GET_users firebase0 users0 None)) = 401 \<and>
   admin_status (fst (snd (POST_make_admin firebase0 users0 None (Some (JObj []))))) = 401 \<and>
   admin_status (snd (GET_users firebase0 users0 (Some ''Bearer tok-bob''))) = 403 \<and>
   admin_status (fst (snd (POST_make_admin firebase0 users0 (Some ''Bearer tok-bob'')
      (Some (JObj [(''targetUserId'', JStr ''bob'')]))))) = 403 \<and>
   fst (GET_users firebase0 users0 (Some ''Bearer tok-alice'')) = [ListUsers] \<and>
   authorized firebase0 users0 (Some ''Bearer tok-alice'') \<and>
   admin_status (fst (snd (POST_make_admin firebase0 users0 (Some ''Bearer tok-alice'')
      (Some (JObj []))))) = 400 \<and>
   admin_status (fst (snd (POST_make_admin firebase0 users0 (Some ''Bearer tok-alice'')
      (Some (JObj [(''targetUserId'', JStr ''carol'')]))))) = 404 \<and>
   fst (POST_make_admin firebase0 users0 (Some ''Bearer tok-alice'')
      (Some (JObj [(''targetUserId'', JStr ''bob'')]))) = [GrantAdmin ''bob''] \<and>
   admin_status (fst (snd (POST_make_admin firebase0 users0 (Some ''Bearer tok-alice'')
      (Some (JObj [(''targetUserId'', JStr ''bob'')]))))) = 200 \<and>
   hasAdminFlag (snd (snd (POST_make_admin firebase0 users0 (Some ''Bearer tok-alice'')
      (Some (JObj [(''targetUserId'', JStr ''bob'')]))))) ''bob''"
proof -
  have calls: "fst (GET_users firebase0 users0 (Some ''Bearer tok-alice'')) = [ListUsers]"
    by (simp add: GET_users_def authorize_def isAdmin_def firebase0_tokens)
       (simp add: firebase0_def)
  have f: "\<not> docReadThrows firebase0" "\<not> docWriteThrows firebase0"
    "''carol'' \<notin> set (authUserIds firebase0)" "''bob'' \<in> set (authUserIds firebase0)"
    by (simp_all add: firebase0_def)
  show ?thesis
    using admin_routes_guarded
            [where authHeader = None and fb = firebase0 and docs = users0
               and requestBody = "Some (JObj [])"]
          admin_routes_guarded
            [where authHeader = "Some ''Bearer tok-bob''" and h = "''Bearer tok-bob''"
               and fb = firebase0 and docs = users0 and userId = "''bob''"
               and requestBody = "Some (JObj [(''targetUserId'', JStr ''bob'')])"]
          admin_routes_guarded
            [where authHeader = "Some ''Bearer tok-alice''" and fb = firebase0 and docs = users0
               and requestBody = "Some (JObj [])" and requestJson = "JObj []"]
          admin_routes_guarded
            [where authHeader = "Some ''Bearer tok-alice''" and fb = firebase0 and docs = users0
               and requestBody = "Some (JObj [(''targetUserId'', JStr ''carol'')])"
               and requestJson = "JObj [(''targetUserId'', JStr ''carol'')]" and target = "''carol''"]
          admin_routes_guarded
            [where authHeader = "Some ''Bearer tok-alice''" and fb = firebase0 and docs = users0
               and requestBody = "Some (JObj [(''targetUserId'', JStr ''bob'')])"
               and requestJson = "JObj [(''targetUserId'', JStr ''bob'')]" and target = "''bob''"]
    by (simp add: firebase0_tokens alice_authorized calls f)
qed

section \<open>Properties of the pipeline for an image\<close>

subsection \<open>The calls of the route and of the uploader\<close>






















subsection \<open>An upload of an image that every library serves\<close>







subsection \<open>The order of the pipeline\<close>




end
